theory Spec2Isabelle
  imports Complex_Main
begin

section \<open>Numbers, units and errors\<close>

text \<open>
  The program is \<^verbatim>\<open>src/demcmc/emission.py\<close>. Its numbers are numpy floats. A finite float
  is modelled as a \<^typ>\<open>real\<close>. A value the code computes that may be not-a-number is a
  \<^typ>\<open>real option\<close>, with \<open>None\<close> for NaN. Arrays and scalars handed to the program hold
  finite numbers.

  Float arithmetic enters the model where it decides what the program does:
  \<^item> a unit conversion multiplies a magnitude by a conversion factor in float arithmetic, and
    the program compares converted magnitudes (the edge check by \<open>==\<close>, the cut by \<open><\<close>). The
    float product is a parameter \<open>fl\<close> of the model, \<open>fl s x\<close> being the float result of
    magnitude \<open>x\<close> times factor \<open>s\<close>; no property of it is assumed, so every theorem holds
    for the product of the machine. A conversion between units of the same scale leaves the
    magnitude as it is, as the library does;
  \<^item> the float exponential of a number below \<open>-1075 ln 2\<close> is 0 (underflow).
  The rounding of a number that is only returned (a mean, a sum, the final reduction of
  \<^verbatim>\<open>I_pred\<close>) is not modelled.

  A unit of the physical-quantity library is a scale factor together with the exponents of
  the seven base dimensions (length, mass, time, current, temperature, amount, luminous
  intensity). The scale is the size of the unit in the coherent base unit of its dimension,
  so that \<open>cm\<close> has length exponent 1 and scale 1/100.
\<close>

datatype dims = Dims int int int int int int int

fun dims_mul :: "dims \<Rightarrow> dims \<Rightarrow> dims" where
  "dims_mul (Dims a b c d e f g) (Dims a' b' c' d' e' f' g') =
     Dims (a + a') (b + b') (c + c') (d + d') (e + e') (f + f') (g + g')"

definition dimensionless :: dims where
  "dimensionless = Dims 0 0 0 0 0 0 0"

definition temperature :: dims where
  "temperature = Dims 0 0 0 0 1 0 0"

record phys_unit =
  scale :: real
  dims :: dims

definition unit_mul :: "phys_unit \<Rightarrow> phys_unit \<Rightarrow> phys_unit" where
  "unit_mul u v = \<lparr>scale = scale u * scale v, dims = dims_mul (dims u) (dims v)\<rparr>"

definition K :: phys_unit where
  "K = \<lparr>scale = 1, dims = temperature\<rparr>"

definition MK :: phys_unit where
  "MK = \<lparr>scale = 1000000, dims = temperature\<rparr>"

definition cm5_per_K :: phys_unit where
  \<comment> \<open>\<^verbatim>\<open>u.cm**5 / u.K\<close>\<close>
  "cm5_per_K = \<lparr>scale = (1 / 100) ^ 5, dims = Dims 5 0 0 0 (- 1) 0 0\<rparr>"

definition dimensionless_unscaled :: phys_unit where
  "dimensionless_unscaled = \<lparr>scale = 1, dims = dimensionless\<rparr>"

datatype error =
    ValueError string
  | MissingBinEdges "real list" phys_unit
  | UnitConversionError
  | IndexError

text \<open>
  \<open>MissingBinEdges\<close> is the \<^verbatim>\<open>ValueError\<close> of \<^verbatim>\<open>_check_bin_edges\<close>; it carries the list
  \<^verbatim>\<open>missing_ts\<close> that the message prints, each entry an edge in the unit of the grid.

  \<^verbatim>\<open>Quantity.to_value(unit)\<close>: the magnitudes in another unit of the same dimension, an error
  for a unit of another dimension.
\<close>

type_synonym float_product = "real \<Rightarrow> real \<Rightarrow> real"

definition convert_fl :: "float_product \<Rightarrow> phys_unit \<Rightarrow> phys_unit \<Rightarrow> real \<Rightarrow> real" where
  \<comment> \<open>the magnitude in another unit: unchanged for equal scales, a float product otherwise\<close>
  "convert_fl fl src tgt x = (if scale src = scale tgt then x else fl (scale src / scale tgt) x)"

definition convert :: "phys_unit \<Rightarrow> phys_unit \<Rightarrow> real \<Rightarrow> real" where
  \<comment> \<open>the conversion in exact arithmetic, for a number that is only returned\<close>
  "convert src tgt x = x * (scale src / scale tgt)"

definition to_value ::
  "float_product \<Rightarrow> phys_unit \<Rightarrow> phys_unit \<Rightarrow> real list \<Rightarrow> error + real list" where
  "to_value fl src tgt xs =
     (if dims src = dims tgt then Inr (map (convert_fl fl src tgt) xs)
      else Inl UnitConversionError)"

definition to_value_scalar ::
  "float_product \<Rightarrow> phys_unit \<Rightarrow> phys_unit \<Rightarrow> real \<Rightarrow> error + real" where
  "to_value_scalar fl src tgt x =
     (if dims src = dims tgt then Inr (convert_fl fl src tgt x) else Inl UnitConversionError)"

section \<open>The data model\<close>

text \<open>A scalar quantity, and an array quantity with its numpy shape and its flat data.\<close>

record quantity =
  q_value :: real
  q_unit :: phys_unit

record qarray =
  shape :: "nat list"
  flat :: "real list"
  a_unit :: phys_unit

definition ndim :: "qarray \<Rightarrow> nat" where
  "ndim a = length (shape a)"

definition size_of :: "qarray \<Rightarrow> nat" where
  "size_of a = prod_list (shape a)"

definition wf_qarray :: "qarray \<Rightarrow> bool" where
  \<comment> \<open>what every numpy array satisfies: as many elements as the shape says\<close>
  "wf_qarray a = (length (flat a) = prod_list (shape a))"

text \<open>
  Modelled from the spec: \<^verbatim>\<open>TempBins\<close> and \<^verbatim>\<open>BinnedDEM\<close> of \<^verbatim>\<open>demcmc/dem.py\<close>, which
  is not among the sources. A grid exposes N+1 edges, the N bin centres (the midpoints) and
  the N bin widths (the extents), all in the unit of the edges; the centres in megakelvin are
  the private attribute \<^verbatim>\<open>_bin_centers_MK\<close>. A binned DEM exposes its grid and one value
  per bin.
\<close>

record TempBins =
  edges :: "real list"
  edges_unit :: phys_unit

definition nbins :: "TempBins \<Rightarrow> nat" where
  "nbins tb = length (edges tb) - 1"

definition bin_centers :: "TempBins \<Rightarrow> real list" where
  "bin_centers tb = map2 (\<lambda>lo hi. (hi + lo) / 2) (edges tb) (tl (edges tb))"

definition bin_widths :: "TempBins \<Rightarrow> real list" where
  "bin_widths tb = map2 (\<lambda>lo hi. hi - lo) (edges tb) (tl (edges tb))"

definition bin_centers_MK :: "float_product \<Rightarrow> TempBins \<Rightarrow> real list" where
  "bin_centers_MK fl tb = map (convert_fl fl (edges_unit tb) MK) (bin_centers tb)"

record BinnedDEM =
  temp_bins :: TempBins
  dem_values :: "real list"
  dem_unit :: phys_unit

record ContFuncGaussian =
  width :: quantity
  center :: quantity
  width_MK :: real
  center_MK :: real

record ContFuncDiscrete =
  temps :: qarray
  "values" :: qarray

datatype ContFunc = Gaussian ContFuncGaussian | Discrete ContFuncDiscrete

record EmissionLine =
  cont_func :: ContFunc
  intensity_obs :: "real option"
  sigma_intensity_obs :: "real option"

record LineCollection =
  lines :: "EmissionLine list"

section \<open>Constructors\<close>

definition ContFuncGaussian_init ::
  "float_product \<Rightarrow> quantity \<Rightarrow> quantity \<Rightarrow> error + ContFuncGaussian" where
  "ContFuncGaussian_init fl c w =
     (case to_value_scalar fl (q_unit w) MK (q_value w) of
        Inl e \<Rightarrow> Inl e
      | Inr wm \<Rightarrow>
          (case to_value_scalar fl (q_unit c) MK (q_value c) of
             Inl e \<Rightarrow> Inl e
           | Inr cm \<Rightarrow> Inr \<lparr>width = w, center = c, width_MK = wm, center_MK = cm\<rparr>))"

definition ContFuncDiscrete_init :: "qarray \<Rightarrow> qarray \<Rightarrow> error + ContFuncDiscrete" where
  "ContFuncDiscrete_init ts vs =
     (if ndim ts \<noteq> 1 then Inl (ValueError ''temps must be a 1D quantity'')
      else if ndim vs \<noteq> 1 then Inl (ValueError ''values must be a 1D quantity'')
      else if size_of ts \<noteq> size_of vs
        then Inl (ValueError ''Temperatures and values must be the same size'')
      else Inr \<lparr>temps = ts, values = vs\<rparr>)"

section \<open>The Gaussian contribution function\<close>

text \<open>
  One bin of \<^verbatim>\<open>np.exp(-(((c - b) / w) ** 2)) * 1e6\<close>. numpy divides by zero without
  raising: for \<open>w = 0\<close> and \<open>c \<noteq> b\<close> the quotient is an infinity, its square is \<open>+inf\<close>,
  the exponential of \<open>-inf\<close> is 0; for \<open>w = 0\<close> and \<open>c = b\<close> the quotient \<open>0/0\<close> is NaN and
  stays NaN. \<^verbatim>\<open>np.exp\<close> is the exponential, except that it returns 0 where the exponential
  is below half the smallest positive float, \<open>2 ^ -1075\<close>.
\<close>

definition np_exp :: "real \<Rightarrow> real" where
  "np_exp x = (if x < - (1075 * ln 2) then 0 else exp x)"

definition gauss_bin :: "real \<Rightarrow> real \<Rightarrow> real \<Rightarrow> real option" where
  "gauss_bin c w b =
     (if w = 0 then (if c = b then None else Some 0)
      else Some (np_exp (- (((c - b) / w) ^ 2)) * 1000000))"

definition binned_gaussian ::
  "float_product \<Rightarrow> ContFuncGaussian \<Rightarrow> TempBins \<Rightarrow> error + (real option list \<times> phys_unit)" where
  "binned_gaussian fl g tb =
     (case to_value fl (edges_unit tb) MK (bin_centers tb) of
        Inl e \<Rightarrow> Inl e
      | Inr bins \<Rightarrow>
          Inr (map (gauss_bin (center_MK g) (width_MK g)) (bin_centers_MK fl tb), cm5_per_K))"

section \<open>The discrete contribution function\<close>

text \<open>
  \<^verbatim>\<open>t not in self.temps\<close> compares the edge, converted to the unit of \<^verbatim>\<open>temps\<close> (a float
  product when the units differ), with every sample by \<open>==\<close>; an edge in a unit of another
  dimension equals no sample.
\<close>

definition contains :: "float_product \<Rightarrow> qarray \<Rightarrow> phys_unit \<Rightarrow> real \<Rightarrow> bool" where
  "contains fl a u t =
     (dims u = dims (a_unit a) \<and> convert_fl fl u (a_unit a) t \<in> set (flat a))"

definition missing_edges :: "float_product \<Rightarrow> ContFuncDiscrete \<Rightarrow> TempBins \<Rightarrow> real list" where
  "missing_edges fl f tb =
     filter (\<lambda>t. \<not> contains fl (temps f) (edges_unit tb) t) (edges tb)"

definition check_bin_edges :: "float_product \<Rightarrow> ContFuncDiscrete \<Rightarrow> TempBins \<Rightarrow> error + unit" where
  "check_bin_edges fl f tb =
     (let missing_ts = missing_edges fl f tb
      in if length missing_ts \<noteq> 0 then Inl (MissingBinEdges missing_ts (edges_unit tb))
         else Inr ())"

text \<open>
  \<^verbatim>\<open>pd.DataFrame({"Temps": ..., "values": ...}).set_index("Temps")\<close>: the rows of the frame,
  one per sample, each a sample point with its value. Columns of different lengths are
  refused.
\<close>

definition data_frame :: "real list \<Rightarrow> real list \<Rightarrow> error + (real \<times> real) list" where
  "data_frame ts vs =
     (if length ts \<noteq> length vs then Inl (ValueError ''All arrays must be of the same length'')
      else Inr (zip ts vs))"

text \<open>
  \<^verbatim>\<open>pd.cut(x, bins, include_lowest=True)\<close> with a sequence of bins. It refuses bins that
  decrease somewhere and, unless there are exactly two of them, bins that repeat a value;
  with no bin edge at all, reading the first edge raises \<^verbatim>\<open>IndexError\<close>.
  Otherwise a sample gets the position \<^verbatim>\<open>bins.searchsorted(x, side="left")\<close>, which is the
  number of edges strictly below it; a sample equal to the first edge is moved to position 1;
  positions 0 and \<^verbatim>\<open>len(bins)\<close> are outside every interval and become the missing category.
  The result is the zero-based number of the interval of each sample, with \<open>None\<close> for the
  missing category. There are \<^verbatim>\<open>len(bins) - 1\<close> intervals.
\<close>

definition searchsorted_left :: "real list \<Rightarrow> real \<Rightarrow> nat" where
  "searchsorted_left bins x = length (filter (\<lambda>b. b < x) bins)"

definition cut_code :: "real list \<Rightarrow> real \<Rightarrow> nat option" where
  "cut_code bins x =
     (let i = searchsorted_left bins x;
          i' = (case bins of [] \<Rightarrow> i | b0 # _ \<Rightarrow> if x = b0 then 1 else i)
      in if i' = length bins \<or> i' = 0 then None else Some (i' - 1))"

definition pd_cut :: "real list \<Rightarrow> real list \<Rightarrow> error + nat option list" where
  "pd_cut xs bins =
     (if \<not> sorted bins then Inl (ValueError ''bins must increase monotonically.'')
      else if \<not> distinct bins \<and> length bins \<noteq> 2 then Inl (ValueError ''Bin edges must be unique'')
      else if bins = [] then Inl IndexError
      else Inr (map (cut_code bins) xs))"

text \<open>
  \<^verbatim>\<open>df.groupby("Groups").mean()\<close> on the categorical column: one row per interval, in the
  order of the intervals, samples of the missing category dropped; the mean of an interval
  that holds no sample is NaN. The program passes no \<^verbatim>\<open>observed\<close>: every category is a
  group, the default of pandas before 3.0, for which the program was written (pandas 2
  warns that the default will change; from 3.0 on an interval without sample is left out).
\<close>

definition mean :: "real list \<Rightarrow> real option" where
  "mean vs = (if vs = [] then None else Some (sum_list vs / real (length vs)))"

definition group_values :: "nat option list \<Rightarrow> real list \<Rightarrow> nat \<Rightarrow> real list" where
  "group_values codes vs k = map snd (filter (\<lambda>cv. fst cv = Some k) (zip codes vs))"

definition groupby_mean :: "nat option list \<Rightarrow> real list \<Rightarrow> nat \<Rightarrow> real option list" where
  "groupby_mean codes vs n = map (\<lambda>k. mean (group_values codes vs k)) [0..<n]"

definition cut_and_group :: "(real \<times> real) list \<Rightarrow> real list \<Rightarrow> error + real option list" where
  \<comment> \<open>the cut of the index of the frame and the group means of its values\<close>
  "cut_and_group rows es =
     (case pd_cut (map fst rows) es of
        Inl e \<Rightarrow> Inl e
      | Inr codes \<Rightarrow> Inr (groupby_mean codes (map snd rows) (length es - 1)))"

definition binned_frame ::
  "real list \<Rightarrow> real list \<Rightarrow> real list \<Rightarrow> error + real option list" where
  \<comment> \<open>the data frame, the cut and the group means, on magnitudes in K and in cm^5/K\<close>
  "binned_frame ts vs es =
     (case data_frame ts vs of
        Inl e \<Rightarrow> Inl e
      | Inr rows \<Rightarrow> cut_and_group rows es)"

definition binned_discrete ::
  "float_product \<Rightarrow> ContFuncDiscrete \<Rightarrow> TempBins \<Rightarrow> error + (real option list \<times> phys_unit)" where
  "binned_discrete fl f tb =
     (case check_bin_edges fl f tb of
        Inl e \<Rightarrow> Inl e
      | Inr _ \<Rightarrow>
     (case to_value fl (a_unit (temps f)) K (flat (temps f)) of
        Inl e \<Rightarrow> Inl e
      | Inr ts \<Rightarrow>
     (case to_value fl (a_unit (values f)) cm5_per_K (flat (values f)) of
        Inl e \<Rightarrow> Inl e
      | Inr vs \<Rightarrow>
     (case data_frame ts vs of
        Inl e \<Rightarrow> Inl e
      | Inr rows \<Rightarrow>
     (case to_value fl (edges_unit tb) K (edges tb) of
        Inl e \<Rightarrow> Inl e
      | Inr es \<Rightarrow>
     (case cut_and_group rows es of
        Inl e \<Rightarrow> Inl e
      | Inr means \<Rightarrow> Inr (means, cm5_per_K)))))))"

section \<open>Emission lines\<close>

fun binned ::
  "float_product \<Rightarrow> ContFunc \<Rightarrow> TempBins \<Rightarrow> error + (real option list \<times> phys_unit)" where
  "binned fl (Gaussian g) tb = binned_gaussian fl g tb"
| "binned fl (Discrete f) tb = binned_discrete fl f tb"

text \<open>
  The arithmetic of \<^verbatim>\<open>I_pred\<close>: a product with NaN is NaN, a sum over a NaN is NaN, the sum
  of no element is 0. numpy multiplies one-dimensional arrays of equal length elementwise,
  stretches an array of length 1 to the other's length, and refuses any other pair. The
  final reduction to a dimensionless number multiplies the sum by the scale of its unit.
\<close>

definition fmul :: "real option \<Rightarrow> real option \<Rightarrow> real option" where
  "fmul x y = (case x of None \<Rightarrow> None | Some a \<Rightarrow> (case y of None \<Rightarrow> None | Some b \<Rightarrow> Some (a * b)))"

definition np_mul :: "real option list \<Rightarrow> real option list \<Rightarrow> error + real option list" where
  "np_mul xs ys =
     (if length xs = length ys then Inr (map2 fmul xs ys)
      else if length xs = 1 then Inr (map (fmul (hd xs)) ys)
      else if length ys = 1 then Inr (map (\<lambda>x. fmul x (hd ys)) xs)
      else Inl (ValueError ''operands could not be broadcast together''))"

definition np_sum :: "real option list \<Rightarrow> real option" where
  "np_sum xs = (if list_all (\<lambda>x. x \<noteq> None) xs then Some (sum_list (map the xs)) else None)"

definition to_dimensionless :: "phys_unit \<Rightarrow> real option \<Rightarrow> error + real option" where
  \<comment> \<open>\<^verbatim>\<open>ret.to_value(u.dimensionless_unscaled)\<close>\<close>
  "to_dimensionless u x =
     (if dims u = dims dimensionless_unscaled
      then Inr (map_option (convert u dimensionless_unscaled) x)
      else Inl UnitConversionError)"

definition product_unit :: "phys_unit \<Rightarrow> BinnedDEM \<Rightarrow> phys_unit" where
  \<comment> \<open>the unit of \<^verbatim>\<open>cont_func * dem.values * dem.temp_bins.bin_widths\<close>\<close>
  "product_unit ug dem = unit_mul (unit_mul ug (dem_unit dem)) (edges_unit (temp_bins dem))"

definition I_pred :: "float_product \<Rightarrow> EmissionLine \<Rightarrow> BinnedDEM \<Rightarrow> error + real option" where
  "I_pred fl line dem =
     (case binned fl (cont_func line) (temp_bins dem) of
        Inl e \<Rightarrow> Inl e
      | Inr (g, ug) \<Rightarrow>
     (case np_mul g (map Some (dem_values dem)) of
        Inl e \<Rightarrow> Inl e
      | Inr p \<Rightarrow>
     (case np_mul p (map Some (bin_widths (temp_bins dem))) of
        Inl e \<Rightarrow> Inl e
      | Inr q \<Rightarrow> to_dimensionless (product_unit ug dem) (np_sum q))))"

section \<open>Auxiliary definitions and example inputs\<close>

text \<open>The Gaussian profile for a width other than zero, as a plain number.\<close>

definition gauss_profile :: "real \<Rightarrow> real \<Rightarrow> real \<Rightarrow> real" where
  "gauss_profile c w b = np_exp (- (((c - b) / w) ^ 2)) * 1000000"

text \<open>
  A conversion in exact arithmetic, as one float product among others. A grid with edges
  0, 2, 4, 6 MK and a Gaussian centred at 3 MK of width 1 MK; a grid with edges 0, 2, 4, 6,
  8 MK and a Gaussian centred at 3 MK of width 0.01 MK.
\<close>

definition exact_product :: float_product where
  "exact_product s x = x * s"

definition tb_MK_02468 :: TempBins where
  "tb_MK_02468 = \<lparr>edges = [0, 2, 4, 6, 8], edges_unit = MK\<rparr>"

definition g_c3_narrow :: ContFuncGaussian where
  "g_c3_narrow = \<lparr>width = \<lparr>q_value = 1 / 100, q_unit = MK\<rparr>, center = \<lparr>q_value = 3, q_unit = MK\<rparr>,
                  width_MK = 1 / 100, center_MK = 3\<rparr>"

definition tb_MK_0246 :: TempBins where
  "tb_MK_0246 = \<lparr>edges = [0, 2, 4, 6], edges_unit = MK\<rparr>"

definition g_c3_w1 :: ContFuncGaussian where
  "g_c3_w1 = \<lparr>width = \<lparr>q_value = 1, q_unit = MK\<rparr>, center = \<lparr>q_value = 3, q_unit = MK\<rparr>,
              width_MK = 1, center_MK = 3\<rparr>"

text \<open>
  The magnitudes \<^verbatim>\<open>binned\<close> works on: the samples and the edges in kelvin, the values in
  cm^5/K.
\<close>

definition edges_K :: "float_product \<Rightarrow> TempBins \<Rightarrow> real list" where
  "edges_K fl tb = map (convert_fl fl (edges_unit tb) K) (edges tb)"

definition temps_K :: "float_product \<Rightarrow> ContFuncDiscrete \<Rightarrow> real list" where
  "temps_K fl f = map (convert_fl fl (a_unit (temps f)) K) (flat (temps f))"

definition values_cgs :: "float_product \<Rightarrow> ContFuncDiscrete \<Rightarrow> real list" where
  "values_cgs fl f = map (convert_fl fl (a_unit (values f)) cm5_per_K) (flat (values f))"

text \<open>
  The partition as the specification words it: bin \<open>k\<close> is the interval from edge \<open>k\<close>
  (excluded) to edge \<open>k + 1\<close> (included), and the lowest bin also holds the samples equal
  to the first edge. \<open>bin_values\<close> lists the values whose sample point lies in bin \<open>k\<close>.
\<close>

definition in_interval :: "real list \<Rightarrow> nat \<Rightarrow> real \<Rightarrow> bool" where
  "in_interval es k t = ((es ! k < t \<and> t \<le> es ! Suc k) \<or> (k = 0 \<and> t = es ! 0))"

definition bin_values :: "real list \<Rightarrow> real list \<Rightarrow> real list \<Rightarrow> nat \<Rightarrow> real list" where
  "bin_values ts vs es k = map snd (filter (\<lambda>tv. in_interval es k (fst tv)) (zip ts vs))"

text \<open>
  Well-formed inputs. A temperature grid has at least two edges in a unit of temperature,
  strictly increasing as magnitudes in kelvin (for a grid in kelvin, the edges themselves).
  A discrete contribution function is what its constructor returns for two arrays with as
  many elements as their shapes say, the samples in a unit of temperature and the values in
  a unit of the dimension of cm^5/K.
\<close>

definition wf_TempBins :: "float_product \<Rightarrow> TempBins \<Rightarrow> bool" where
  "wf_TempBins fl tb =
     (dims (edges_unit tb) = temperature \<and> 2 \<le> length (edges tb)
      \<and> sorted_wrt (<) (edges_K fl tb))"

definition wf_ContFuncDiscrete :: "ContFuncDiscrete \<Rightarrow> bool" where
  "wf_ContFuncDiscrete f =
     (wf_qarray (temps f) \<and> wf_qarray (values f)
      \<and> ContFuncDiscrete_init (temps f) (values f) = Inr f
      \<and> dims (a_unit (temps f)) = temperature
      \<and> dims (a_unit (values f)) = dims cm5_per_K)"

text \<open>
  The example of the specification: samples 1..5 K with values 10..50 cm^5/K, the grid with
  edges 1, 3, 5 K and the grid with edges 1, 2.5, 5 K.
\<close>

definition f_ex :: ContFuncDiscrete where
  "f_ex = \<lparr>temps = \<lparr>shape = [5], flat = [1, 2, 3, 4, 5], a_unit = K\<rparr>,
           values = \<lparr>shape = [5], flat = [10, 20, 30, 40, 50], a_unit = cm5_per_K\<rparr>\<rparr>"

definition tb_135 :: TempBins where
  "tb_135 = \<lparr>edges = [1, 3, 5], edges_unit = K\<rparr>"

definition tb_1_25_5 :: TempBins where
  "tb_1_25_5 = \<lparr>edges = [1, 5 / 2, 5], edges_unit = K\<rparr>"

text \<open>
  Samples in megakelvin on a grid in kelvin. \<open>t_2007\<close> is the float nearest to 2.007. In
  float arithmetic 2007000 K is \<open>t_2007\<close> MK (\<^verbatim>\<open>2007000 * 1e-06 == 2.007\<close>), and \<open>t_2007\<close> MK
  is \<open>t_2007_K\<close>, the float next above 2007000 K (\<^verbatim>\<open>2.007 * 1e6 == 2007000.0000000002\<close>).
  \<open>fl_2007\<close> is a
  float product with these two values, exact elsewhere; the products of 1 and 2 MK and of
  1000000 and 2000000 K are exact in float arithmetic too.
\<close>

definition t_2007 :: real where
  "t_2007 = 4519362226066293 / 2251799813685248"

definition t_2007_K :: real where
  "t_2007_K = 2007000 + 1 / 2 ^ 32"

definition fl_2007 :: float_product where
  "fl_2007 s x =
     (if s = 1000000 \<and> x = t_2007 then t_2007_K
      else if s = 1 / 1000000 \<and> x = 2007000 then t_2007
      else x * s)"

definition f_MK_12 :: ContFuncDiscrete where
  "f_MK_12 = \<lparr>temps = \<lparr>shape = [2], flat = [1, 2], a_unit = MK\<rparr>,
             values = \<lparr>shape = [2], flat = [10, 20], a_unit = cm5_per_K\<rparr>\<rparr>"

definition f_MK_2007 :: ContFuncDiscrete where
  "f_MK_2007 = \<lparr>temps = \<lparr>shape = [3], flat = [1, 2, t_2007], a_unit = MK\<rparr>,
               values = \<lparr>shape = [3], flat = [10, 20, 30], a_unit = cm5_per_K\<rparr>\<rparr>"

definition tb_K_2007 :: TempBins where
  "tb_K_2007 = \<lparr>edges = [1000000, 2000000, 2007000], edges_unit = K\<rparr>"


text \<open>
  An emission line whose contribution function is 10 cm^5/K at the samples 1, 2, 3 K, the grid
  with edges 1, 2, 3 K, and binned DEMs on it with the value 4 in every bin: one in cm^-5,
  one (ill-dimensioned) in K. A line over the example samples and a DEM on the grid with the
  edge 2.5 K.
\<close>

definition per_cm5 :: phys_unit where
  "per_cm5 = \<lparr>scale = 100 ^ 5, dims = Dims (- 5) 0 0 0 0 0 0\<rparr>"

definition f_const :: ContFuncDiscrete where
  "f_const = \<lparr>temps = \<lparr>shape = [3], flat = [1, 2, 3], a_unit = K\<rparr>,
             values = \<lparr>shape = [3], flat = [10, 10, 10], a_unit = cm5_per_K\<rparr>\<rparr>"

definition tb_123 :: TempBins where
  "tb_123 = \<lparr>edges = [1, 2, 3], edges_unit = K\<rparr>"

definition line_const :: EmissionLine where
  "line_const = \<lparr>cont_func = Discrete f_const, intensity_obs = None, sigma_intensity_obs = None\<rparr>"

definition line_ex :: EmissionLine where
  "line_ex = \<lparr>cont_func = Discrete f_ex, intensity_obs = None, sigma_intensity_obs = None\<rparr>"

definition dem_ex :: BinnedDEM where
  "dem_ex = \<lparr>temp_bins = tb_123, dem_values = [4, 4], dem_unit = per_cm5\<rparr>"

definition dem_K :: BinnedDEM where
  "dem_K = \<lparr>temp_bins = tb_123, dem_values = [4, 4], dem_unit = K\<rparr>"

definition dem_missing :: BinnedDEM where
  "dem_missing = \<lparr>temp_bins = tb_1_25_5, dem_values = [4, 4], dem_unit = per_cm5\<rparr>"

section \<open>Construction of a discrete contribution function\<close>

text \<open>
  Claim C6. Building a discrete contribution function from \<open>temps\<close> or \<open>values\<close> that are
  not one-dimensional, or that differ in size, fails with a \<^verbatim>\<open>ValueError\<close> and yields no
  object; building it from one-dimensional arrays of equal size succeeds and the object
  holds the two arrays as they were given.
\<close>

theorem ContFuncDiscrete_init_validates:
  "(ndim ts \<noteq> 1 \<or> ndim vs \<noteq> 1 \<or> size_of ts \<noteq> size_of vs \<longrightarrow>
      (\<exists>msg. ContFuncDiscrete_init ts vs = Inl (ValueError msg)))
   \<and> (ndim ts = 1 \<and> ndim vs = 1 \<and> size_of ts = size_of vs \<longrightarrow>
      (\<exists>f. ContFuncDiscrete_init ts vs = Inr f \<and> temps f = ts \<and> values f = vs))"
  by (simp add: ContFuncDiscrete_init_def)

theorem ContFuncDiscrete_init_validates_witness:
  "(\<exists>msg. ContFuncDiscrete_init
       \<lparr>shape = [3], flat = [1, 2, 3], a_unit = K\<rparr>
       \<lparr>shape = [4], flat = [10, 20, 30, 40], a_unit = cm5_per_K\<rparr> = Inl (ValueError msg))
   \<and> (\<exists>msg. ContFuncDiscrete_init
       \<lparr>shape = [2, 2], flat = [1, 2, 3, 4], a_unit = K\<rparr>
       \<lparr>shape = [4], flat = [10, 20, 30, 40], a_unit = cm5_per_K\<rparr> = Inl (ValueError msg))
   \<and> (\<exists>f. ContFuncDiscrete_init
       \<lparr>shape = [3], flat = [1, 2, 3], a_unit = K\<rparr>
       \<lparr>shape = [3], flat = [10, 20, 30], a_unit = cm5_per_K\<rparr> = Inr f
       \<and> temps f = \<lparr>shape = [3], flat = [1, 2, 3], a_unit = K\<rparr>
       \<and> values f = \<lparr>shape = [3], flat = [10, 20, 30], a_unit = cm5_per_K\<rparr>)"
  using ContFuncDiscrete_init_validates
      [of "\<lparr>shape = [3], flat = [1, 2, 3], a_unit = K\<rparr>"
          "\<lparr>shape = [4], flat = [10, 20, 30, 40], a_unit = cm5_per_K\<rparr>"]
    ContFuncDiscrete_init_validates
      [of "\<lparr>shape = [2, 2], flat = [1, 2, 3, 4], a_unit = K\<rparr>"
          "\<lparr>shape = [4], flat = [10, 20, 30, 40], a_unit = cm5_per_K\<rparr>"]
    ContFuncDiscrete_init_validates
      [of "\<lparr>shape = [3], flat = [1, 2, 3], a_unit = K\<rparr>"
          "\<lparr>shape = [3], flat = [10, 20, 30], a_unit = cm5_per_K\<rparr>"]
  by (simp add: ndim_def size_of_def)

section \<open>Properties of the Gaussian contribution function\<close>

lemma length_bin_centers: "length (bin_centers tb) = nbins tb"
  by (simp add: bin_centers_def nbins_def)

lemma length_bin_widths: "length (bin_widths tb) = nbins tb"
  by (simp add: bin_widths_def nbins_def)

lemma length_bin_centers_MK: "length (bin_centers_MK fl tb) = nbins tb"
  by (simp add: bin_centers_MK_def length_bin_centers)

lemma dims_MK: "dims MK = temperature"
  by (simp add: MK_def)

lemma dims_K: "dims K = temperature"
  by (simp add: K_def)

lemma binned_gaussian_temperature:
  assumes "dims (edges_unit tb) = temperature"
  shows "binned_gaussian fl g tb =
    Inr (map (gauss_bin (center_MK g) (width_MK g)) (bin_centers_MK fl tb), cm5_per_K)"
  using assms by (simp add: binned_gaussian_def to_value_def dims_MK)

text \<open>The float exponential: 1 at 0, at most 1 below 0, monotone, 0 below the threshold.\<close>

lemma np_exp_zero: "np_exp 0 = 1"
proof -
  have "0 < ln (2::real)"
    by (simp add: ln_gt_zero)
  then show ?thesis
    by (simp add: np_exp_def)
qed

lemma np_exp_le_one:
  assumes "x \<le> 0"
  shows "np_exp x \<le> 1"
  using assms by (simp add: np_exp_def)

lemma np_exp_mono:
  assumes "a \<le> b"
  shows "np_exp a \<le> np_exp b"
  using assms by (auto simp add: np_exp_def)

lemma np_exp_underflow:
  assumes "x \<le> - 1075"
  shows "np_exp x = 0"
proof -
  have "1075 * ln (2::real) < 1075 * 1"
    using ln_2_less_1 by (intro mult_strict_left_mono) simp_all
  then show ?thesis
    using assms by (simp add: np_exp_def)
qed

lemma ln_2_ge_half: "1 / 2 \<le> ln (2::real)"
proof -
  have "norm (exp (1 / 2 :: real)) \<le> 2"
    by (rule exp_bound_half) simp
  then have "exp (1 / 2 :: real) \<le> 2"
    by simp
  moreover have "(0::real) < 2"
    by simp
  ultimately show ?thesis
    using ln_ge_iff [of 2 "1 / 2"] by blast
qed

lemma np_exp_exact:
  assumes "- 500 \<le> x"
  shows "np_exp x = exp x"
proof -
  have "1075 * (1 / 2) \<le> 1075 * ln (2::real)"
    using ln_2_ge_half by (intro mult_left_mono) simp_all
  then show ?thesis
    using assms by (simp add: np_exp_def)
qed

lemma gauss_bin_pos_width:
  assumes "w \<noteq> 0"
  shows "gauss_bin c w b = Some (gauss_profile c w b)"
  using assms by (simp add: gauss_bin_def gauss_profile_def)

lemma gauss_profile_le: "gauss_profile c w b \<le> 1000000"
  using np_exp_le_one [of "- (((c - b) / w) ^ 2)"] by (simp add: gauss_profile_def)

lemma gauss_profile_center: "gauss_profile c w c = 1000000"
  by (simp add: gauss_profile_def np_exp_zero)

lemma sq_quot_abs: "((c - b) / (w::real)) ^ 2 = (\<bar>b - c\<bar> / \<bar>w\<bar>) ^ 2"
proof -
  have "((c - b) / w) ^ 2 = \<bar>(c - b) / w\<bar> ^ 2"
    by (rule power2_abs [symmetric])
  also have "\<bar>(c - b) / w\<bar> = \<bar>b - c\<bar> / \<bar>w\<bar>"
    by (simp add: abs_minus_commute)
  finally show ?thesis .
qed

lemma gauss_profile_mono:
  assumes "\<bar>b1 - c\<bar> \<le> \<bar>b2 - c\<bar>"
  shows "gauss_profile c w b2 \<le> gauss_profile c w b1"
proof -
  have "\<bar>b1 - c\<bar> / \<bar>w\<bar> \<le> \<bar>b2 - c\<bar> / \<bar>w\<bar>"
    using assms by (simp add: divide_right_mono)
  moreover have "0 \<le> \<bar>b1 - c\<bar> / \<bar>w\<bar>"
    by simp
  ultimately have "(\<bar>b1 - c\<bar> / \<bar>w\<bar>) ^ 2 \<le> (\<bar>b2 - c\<bar> / \<bar>w\<bar>) ^ 2"
    by (rule power_mono)
  then have "np_exp (- ((\<bar>b2 - c\<bar> / \<bar>w\<bar>) ^ 2)) \<le> np_exp (- ((\<bar>b1 - c\<bar> / \<bar>w\<bar>) ^ 2))"
    by (intro np_exp_mono) simp
  then show ?thesis
    unfolding gauss_profile_def sq_quot_abs by simp
qed

lemma gauss_profile_sym:
  assumes "\<bar>b1 - c\<bar> = \<bar>b2 - c\<bar>"
  shows "gauss_profile c w b1 = gauss_profile c w b2"
  unfolding gauss_profile_def sq_quot_abs using assms by simp

text \<open>
  Claim C5. On every temperature grid (a grid whose edges carry a unit of temperature) the
  Gaussian \<open>binned\<close> returns, never an error: a sequence in cm^5/K with one entry per bin
  of the grid, entry \<open>i\<close> being the profile at the centre of bin \<open>i\<close>.
\<close>

theorem gaussian_binned_total:
  assumes "dims (edges_unit tb) = temperature"
  shows "\<exists>vals. binned fl (Gaussian g) tb = Inr (vals, cm5_per_K)
           \<and> length vals = nbins tb
           \<and> (\<forall>i<nbins tb. vals ! i =
                 gauss_bin (center_MK g) (width_MK g) (bin_centers_MK fl tb ! i))"
  using assms by (simp add: binned_gaussian_temperature length_bin_centers_MK)

text \<open>
  Claim C4, as amended. For a Gaussian contribution function of positive width on a
  temperature grid, the value of a bin is the float exponential of minus the square of
  (centre of the Gaussian minus bin centre) over width, times K = 1000000 cm^5/K. Every bin
  value is at most K, a bin whose centre equals the centre of the Gaussian has exactly K, a
  bin whose centre is nearer to the centre of the Gaussian has a value at least as large, and
  two bins whose centres are equally far from it have equal values. The values need not
  decrease strictly: where the exponential underflows they are all 0.
\<close>

theorem gaussian_binned_peak:
  assumes "0 < width_MK g" and "dims (edges_unit tb) = temperature"
  shows "\<exists>vals. binned fl (Gaussian g) tb = Inr (map Some vals, cm5_per_K)
           \<and> length vals = nbins tb
           \<and> (\<forall>i<nbins tb.
                 vals ! i =
                   np_exp (- (((center_MK g - bin_centers_MK fl tb ! i) / width_MK g) ^ 2))
                   * 1000000
                 \<and> vals ! i \<le> 1000000
                 \<and> (bin_centers_MK fl tb ! i = center_MK g \<longrightarrow> vals ! i = 1000000))
           \<and> (\<forall>i<nbins tb. \<forall>j<nbins tb.
                 (\<bar>bin_centers_MK fl tb ! i - center_MK g\<bar> < \<bar>bin_centers_MK fl tb ! j - center_MK g\<bar>
                    \<longrightarrow> vals ! j \<le> vals ! i)
                 \<and> (\<bar>bin_centers_MK fl tb ! i - center_MK g\<bar> = \<bar>bin_centers_MK fl tb ! j - center_MK g\<bar>
                    \<longrightarrow> vals ! i = vals ! j))"
proof -
  let ?c = "center_MK g" and ?w = "width_MK g"
  let ?bs = "bin_centers_MK fl tb"
  let ?vals = "map (gauss_profile ?c ?w) ?bs"
  have w: "?w \<noteq> 0"
    using assms(1) by simp
  have "map (gauss_bin ?c ?w) ?bs = map Some ?vals"
    using w by (simp add: gauss_bin_pos_width)
  then have run: "binned fl (Gaussian g) tb = Inr (map Some ?vals, cm5_per_K)"
    using assms(2) by (simp add: binned_gaussian_temperature)
  have len: "length ?vals = nbins tb"
    by (simp add: length_bin_centers_MK)
  have peak: "\<forall>i<nbins tb.
      ?vals ! i = np_exp (- (((?c - ?bs ! i) / ?w) ^ 2)) * 1000000
      \<and> ?vals ! i \<le> 1000000
      \<and> (?bs ! i = ?c \<longrightarrow> ?vals ! i = 1000000)"
  proof (intro allI impI conjI)
    fix i
    assume i: "i < nbins tb"
    then show "?vals ! i = np_exp (- (((?c - ?bs ! i) / ?w) ^ 2)) * 1000000"
      by (simp add: length_bin_centers_MK gauss_profile_def)
    show "?vals ! i \<le> 1000000"
      using i by (simp add: length_bin_centers_MK gauss_profile_le)
    assume "?bs ! i = ?c"
    then show "?vals ! i = 1000000"
      using i gauss_profile_center [of ?c ?w] by (simp add: length_bin_centers_MK)
  qed
  have shape: "\<forall>i<nbins tb. \<forall>j<nbins tb.
      (\<bar>?bs ! i - ?c\<bar> < \<bar>?bs ! j - ?c\<bar> \<longrightarrow> ?vals ! j \<le> ?vals ! i)
      \<and> (\<bar>?bs ! i - ?c\<bar> = \<bar>?bs ! j - ?c\<bar> \<longrightarrow> ?vals ! i = ?vals ! j)"
  proof (intro allI impI conjI)
    fix i j
    assume "i < nbins tb" and "j < nbins tb"
      and "\<bar>?bs ! i - ?c\<bar> < \<bar>?bs ! j - ?c\<bar>"
    then show "?vals ! j \<le> ?vals ! i"
      using gauss_profile_mono [of "?bs ! i" ?c "?bs ! j" ?w]
      by (simp add: length_bin_centers_MK)
  next
    fix i j
    assume "i < nbins tb" and "j < nbins tb"
      and "\<bar>?bs ! i - ?c\<bar> = \<bar>?bs ! j - ?c\<bar>"
    then show "?vals ! i = ?vals ! j"
      using gauss_profile_sym [of "?bs ! i" ?c "?bs ! j" ?w]
      by (simp add: length_bin_centers_MK)
  qed
  from run len peak shape show ?thesis
    by blast
qed

lemma tb_MK_0246_centers: "bin_centers_MK fl tb_MK_0246 = [1, 3, 5]"
  by (simp add: tb_MK_0246_def bin_centers_MK_def bin_centers_def convert_fl_def MK_def)

lemma tb_MK_02468_centers: "bin_centers_MK fl tb_MK_02468 = [1, 3, 5, 7]"
  by (simp add: tb_MK_02468_def bin_centers_MK_def bin_centers_def convert_fl_def MK_def)

theorem gaussian_binned_peak_witness:
  "\<forall>fl. \<exists>vals. binned fl (Gaussian g_c3_w1) tb_MK_0246 = Inr (map Some vals, cm5_per_K)
      \<and> length vals = 3 \<and> vals ! 1 = 1000000 \<and> vals ! 0 = exp (- 4) * 1000000
      \<and> vals ! 0 < vals ! 1 \<and> vals ! 0 = vals ! 2"
proof
  fix fl
  have w: "0 < width_MK g_c3_w1"
    by (simp add: g_c3_w1_def)
  have t: "dims (edges_unit tb_MK_0246) = temperature"
    by (simp add: tb_MK_0246_def MK_def)
  have n: "nbins tb_MK_0246 = 3"
    by (simp add: nbins_def tb_MK_0246_def)
  have c: "center_MK g_c3_w1 = 3"
    by (simp add: g_c3_w1_def)
  from gaussian_binned_peak [OF w t, of fl] obtain vals where
    run: "binned fl (Gaussian g_c3_w1) tb_MK_0246 = Inr (map Some vals, cm5_per_K)"
    and len: "length vals = 3"
    and peak: "\<forall>i<3.
        vals ! i = np_exp (- (((3 - [1, 3, 5] ! i) / width_MK g_c3_w1) ^ 2)) * 1000000
        \<and> vals ! i \<le> 1000000 \<and> ([1, 3, 5] ! i = (3::real) \<longrightarrow> vals ! i = 1000000)"
    and shape: "\<forall>i<3. \<forall>j<3.
        (\<bar>[1, 3, 5] ! i - (3::real)\<bar> < \<bar>[1, 3, 5] ! j - 3\<bar> \<longrightarrow> vals ! j \<le> vals ! i)
        \<and> (\<bar>[1, 3, 5] ! i - (3::real)\<bar> = \<bar>[1, 3, 5] ! j - 3\<bar> \<longrightarrow> vals ! i = vals ! j)"
    unfolding n c tb_MK_0246_centers by blast
  have one: "vals ! 1 = 1000000"
    using peak [rule_format, of 1] by simp
  have zero: "vals ! 0 = exp (- 4) * 1000000"
    using peak [rule_format, of 0] by (simp add: g_c3_w1_def np_exp_exact)
  have "exp (- 4 :: real) < 1"
    by simp
  then have "vals ! 0 < vals ! 1"
    using one zero by simp
  moreover have "vals ! 0 = vals ! 2"
    using shape [rule_format, of 0 2] by simp
  ultimately show "\<exists>vals. binned fl (Gaussian g_c3_w1) tb_MK_0246 = Inr (map Some vals, cm5_per_K)
      \<and> length vals = 3 \<and> vals ! 1 = 1000000 \<and> vals ! 0 = exp (- 4) * 1000000
      \<and> vals ! 0 < vals ! 1 \<and> vals ! 0 = vals ! 2"
    using run len one zero by blast
qed

text \<open>
  The claim as it was stated, with values strictly decreasing as the distance to the centre
  grows, fails: for width 0.01 MK and centre 3 MK the bins centred at 5 MK and at 7 MK both
  have the value 0.
\<close>

theorem gaussian_binned_strict_counterexample:
  "binned exact_product (Gaussian g_c3_narrow) tb_MK_02468 =
      Inr (map Some [0, 1000000, 0, 0], cm5_per_K)
   \<and> 0 < width_MK g_c3_narrow
   \<and> dims (edges_unit tb_MK_02468) = temperature
   \<and> \<bar>bin_centers_MK exact_product tb_MK_02468 ! 2 - center_MK g_c3_narrow\<bar>
       < \<bar>bin_centers_MK exact_product tb_MK_02468 ! 3 - center_MK g_c3_narrow\<bar>
   \<and> \<not> ([0, 1000000, 0, 0 :: real] ! 3 < [0, 1000000, 0, 0] ! 2)"
proof -
  have t: "dims (edges_unit tb_MK_02468) = temperature"
    by (simp add: tb_MK_02468_def MK_def)
  have far: "gauss_bin 3 (1 / 100) 1 = Some 0" "gauss_bin 3 (1 / 100) 5 = Some 0"
    "gauss_bin 3 (1 / 100) 7 = Some 0"
    by (simp_all add: gauss_bin_def np_exp_underflow)
  have near: "gauss_bin 3 (1 / 100) 3 = Some 1000000"
    by (simp add: gauss_bin_def np_exp_zero)
  have "binned exact_product (Gaussian g_c3_narrow) tb_MK_02468 =
      Inr (map Some [0, 1000000, 0, 0], cm5_per_K)"
    using binned_gaussian_temperature [OF t, of exact_product g_c3_narrow]
    by (simp add: tb_MK_02468_centers g_c3_narrow_def far near)
  then show ?thesis
    using t by (simp add: tb_MK_02468_centers g_c3_narrow_def)
qed

theorem gaussian_binned_total_witness:
  "\<forall>fl. \<exists>vals. binned fl (Gaussian g_c3_w1) tb_MK_0246 = Inr (vals, cm5_per_K) \<and> length vals = 3
      \<and> vals ! 1 = Some 1000000"
proof
  fix fl
  have t: "dims (edges_unit tb_MK_0246) = temperature"
    by (simp add: tb_MK_0246_def MK_def)
  have n: "nbins tb_MK_0246 = 3"
    by (simp add: nbins_def tb_MK_0246_def)
  from gaussian_binned_total [OF t, of fl g_c3_w1] obtain vals where
    run: "binned fl (Gaussian g_c3_w1) tb_MK_0246 = Inr (vals, cm5_per_K)"
    and len: "length vals = 3"
    and each: "\<forall>i<3. vals ! i = gauss_bin (center_MK g_c3_w1) (width_MK g_c3_w1) ([1, 3, 5] ! i)"
    unfolding n tb_MK_0246_centers by blast
  have "vals ! 1 = Some 1000000"
    using each [rule_format, of 1] by (simp add: g_c3_w1_def gauss_bin_def np_exp_zero)
  then show "\<exists>vals. binned fl (Gaussian g_c3_w1) tb_MK_0246 = Inr (vals, cm5_per_K) \<and> length vals = 3
      \<and> vals ! 1 = Some 1000000"
    using run len by blast
qed

section \<open>Properties of the discrete contribution function\<close>

text \<open>The cut: for increasing edges, a sample gets code \<open>k\<close> exactly when it lies in bin \<open>k\<close>.\<close>

lemma filter_less_sorted:
  fixes t :: real
  assumes "sorted es"
  shows "filter (\<lambda>b. b < t) es = takeWhile (\<lambda>b. b < t) es"
  using assms
proof (induction es)
  case Nil
  then show ?case by simp
next
  case (Cons x xs)
  show ?case
  proof (cases "x < t")
    case True
    with Cons show ?thesis by simp
  next
    case False
    with Cons.prems have "\<forall>y\<in>set xs. \<not> y < t"
      by auto
    then have "filter (\<lambda>b. b < t) xs = []"
      by (simp add: filter_empty_conv)
    with False show ?thesis by simp
  qed
qed

lemma searchsorted_left_below:
  assumes "sorted es" and "j < searchsorted_left es t"
  shows "es ! j < t"
proof -
  have j: "j < length (takeWhile (\<lambda>b. b < t) es)"
    using assms by (simp add: searchsorted_left_def filter_less_sorted)
  then have "takeWhile (\<lambda>b. b < t) es ! j \<in> set (takeWhile (\<lambda>b. b < t) es)"
    by (rule nth_mem)
  then have "takeWhile (\<lambda>b. b < t) es ! j < t"
    by (rule set_takeWhileD [THEN conjunct2])
  then show ?thesis
    using j by (simp add: takeWhile_nth)
qed

lemma searchsorted_left_at:
  assumes "sorted es" and "searchsorted_left es t < length es"
  shows "t \<le> es ! searchsorted_left es t"
proof -
  have "\<not> es ! length (takeWhile (\<lambda>b. b < t) es) < t"
    using assms by (intro nth_length_takeWhile) (simp add: searchsorted_left_def filter_less_sorted)
  then show ?thesis
    using assms(1) by (simp add: searchsorted_left_def filter_less_sorted)
qed

lemma searchsorted_left_le: "searchsorted_left es t \<le> length es"
  by (simp add: searchsorted_left_def)

lemma searchsorted_left_iff:
  assumes "sorted es" and "Suc k < length es"
  shows "searchsorted_left es t = Suc k \<longleftrightarrow> es ! k < t \<and> t \<le> es ! Suc k"
proof
  assume i: "searchsorted_left es t = Suc k"
  have "es ! k < t"
    using assms(1) i by (intro searchsorted_left_below) simp_all
  moreover have "t \<le> es ! Suc k"
    using searchsorted_left_at [OF assms(1), of t] assms(2) i by simp
  ultimately show "es ! k < t \<and> t \<le> es ! Suc k" ..
next
  assume b: "es ! k < t \<and> t \<le> es ! Suc k"
  let ?i = "searchsorted_left es t"
  have "\<not> ?i \<le> k"
  proof
    assume le: "?i \<le> k"
    then have "?i < length es"
      using assms(2) by simp
    then have "t \<le> es ! ?i"
      by (rule searchsorted_left_at [OF assms(1)])
    moreover have "es ! ?i \<le> es ! k"
      using assms le by (intro sorted_nth_mono) simp_all
    ultimately show False
      using b by simp
  qed
  moreover have "\<not> Suc k < ?i"
  proof
    assume "Suc k < ?i"
    then have "es ! Suc k < t"
      by (rule searchsorted_left_below [OF assms(1)])
    then show False
      using b by simp
  qed
  ultimately show "?i = Suc k"
    by simp
qed

lemma cut_code_iff:
  assumes "sorted es" and "Suc k < length es"
  shows "cut_code es t = Some k \<longleftrightarrow> in_interval es k t"
proof -
  from assms(2) obtain b0 rest where es: "es = b0 # rest"
    by (cases es) simp_all
  show ?thesis
  proof (cases "t = b0")
    case True
    have code: "cut_code es t = Some 0"
      using True assms(2) es by (auto simp add: cut_code_def Let_def)
    have "es ! 0 \<le> es ! k"
      using assms by (intro sorted_nth_mono) simp_all
    then have "in_interval es k t \<longleftrightarrow> k = 0"
      using True es by (auto simp add: in_interval_def)
    with code show ?thesis
      by auto
  next
    case False
    let ?i = "searchsorted_left es t"
    have code: "cut_code es t = (if ?i = length es \<or> ?i = 0 then None else Some (?i - 1))"
      using False es by (simp add: cut_code_def Let_def)
    have "cut_code es t = Some k \<longleftrightarrow> ?i = Suc k"
      using code assms(2) by auto
    also have "\<dots> \<longleftrightarrow> es ! k < t \<and> t \<le> es ! Suc k"
      by (rule searchsorted_left_iff [OF assms])
    also have "\<dots> \<longleftrightarrow> in_interval es k t"
      using False es by (auto simp add: in_interval_def)
    finally show ?thesis .
  qed
qed

lemma group_bin_values:
  assumes "sorted es" and "Suc k < length es"
  shows "group_values (map (cut_code es) ts) vs k = bin_values ts vs es k"
proof -
  have "zip (map (cut_code es) ts) vs = map (\<lambda>tv. (cut_code es (fst tv), snd tv)) (zip ts vs)"
    by (simp add: zip_map1 case_prod_beta)
  then have "group_values (map (cut_code es) ts) vs k =
      map snd (filter (\<lambda>tv. cut_code es (fst tv) = Some k) (zip ts vs))"
    by (simp add: group_values_def filter_map comp_def)
  also have "\<dots> = bin_values ts vs es k"
    using assms by (simp add: bin_values_def cut_code_iff)
  finally show ?thesis .
qed

lemma binned_frame_alt:
  "binned_frame ts vs es =
     (if length ts \<noteq> length vs then Inl (ValueError ''All arrays must be of the same length'')
      else if \<not> sorted es then Inl (ValueError ''bins must increase monotonically.'')
      else if \<not> distinct es \<and> length es \<noteq> 2 then Inl (ValueError ''Bin edges must be unique'')
      else if es = [] then Inl IndexError
      else Inr (groupby_mean (map (cut_code es) ts) vs (length es - 1)))"
  by (simp add: binned_frame_def data_frame_def cut_and_group_def pd_cut_def)

lemma binned_discrete_alt:
  "binned_discrete fl f tb =
     (case check_bin_edges fl f tb of
        Inl e \<Rightarrow> Inl e
      | Inr _ \<Rightarrow>
     (case to_value fl (a_unit (temps f)) K (flat (temps f)) of
        Inl e \<Rightarrow> Inl e
      | Inr ts \<Rightarrow>
     (case to_value fl (a_unit (values f)) cm5_per_K (flat (values f)) of
        Inl e \<Rightarrow> Inl e
      | Inr vs \<Rightarrow>
     (if length ts \<noteq> length vs then Inl (ValueError ''All arrays must be of the same length'')
      else
     (case to_value fl (edges_unit tb) K (edges tb) of
        Inl e \<Rightarrow> Inl e
      | Inr es \<Rightarrow>
     (case binned_frame ts vs es of
        Inl e \<Rightarrow> Inl e
      | Inr means \<Rightarrow> Inr (means, cm5_per_K)))))))"
  by (simp add: binned_discrete_def binned_frame_def data_frame_def split: sum.splits)

lemma binned_frame_means:
  assumes "length ts = length vs" and "sorted es" and "distinct es \<or> length es = 2"
    and "es \<noteq> []"
  shows "binned_frame ts vs es =
    Inr (map (\<lambda>k. mean (bin_values ts vs es k)) [0..<length es - 1])"
proof -
  have "map (\<lambda>k. mean (group_values (map (cut_code es) ts) vs k)) [0..<length es - 1] =
      map (\<lambda>k. mean (bin_values ts vs es k)) [0..<length es - 1]"
    using assms(2) by (intro map_cong refl) (simp add: group_bin_values)
  then show ?thesis
    using assms by (auto simp add: binned_frame_alt groupby_mean_def)
qed

text \<open>The edge check and the errors of \<open>binned\<close>.\<close>

lemma check_bin_edges_missing:
  assumes "missing_edges fl f tb \<noteq> []"
  shows "check_bin_edges fl f tb = Inl (MissingBinEdges (missing_edges fl f tb) (edges_unit tb))"
  using assms by (simp add: check_bin_edges_def Let_def)

lemma check_bin_edges_present:
  assumes "missing_edges fl f tb = []"
  shows "check_bin_edges fl f tb = Inr ()"
  using assms by (simp add: check_bin_edges_def Let_def)

lemma missing_edges_iff:
  "missing_edges fl f tb \<noteq> [] \<longleftrightarrow> (\<exists>t\<in>set (edges tb). \<not> contains fl (temps f) (edges_unit tb) t)"
  by (auto simp add: missing_edges_def filter_empty_conv)

lemma binned_discrete_missing:
  assumes "missing_edges fl f tb \<noteq> []"
  shows "binned_discrete fl f tb = Inl (MissingBinEdges (missing_edges fl f tb) (edges_unit tb))"
  using assms by (simp add: binned_discrete_def check_bin_edges_missing)

lemma binned_frame_not_missing: "binned_frame ts vs es \<noteq> Inl (MissingBinEdges ms u)"
  by (simp add: binned_frame_alt)

lemma binned_discrete_present_not_missing:
  assumes "missing_edges fl f tb = []"
  shows "binned_discrete fl f tb \<noteq> Inl (MissingBinEdges ms u)"
  using assms binned_frame_not_missing
  by (auto simp add: binned_discrete_alt check_bin_edges_present to_value_def split: sum.splits)

text \<open>Well-formed inputs.\<close>

lemma wf_TempBins_strict:
  assumes "wf_TempBins fl tb"
  shows "sorted_wrt (<) (edges_K fl tb)"
  using assms by (simp add: wf_TempBins_def)

lemma wf_TempBins_sorted:
  assumes "wf_TempBins fl tb"
  shows "sorted (edges_K fl tb)"
  using wf_TempBins_strict [OF assms] by (simp add: strict_sorted_iff)

lemma wf_TempBins_distinct:
  assumes "wf_TempBins fl tb"
  shows "distinct (edges_K fl tb)"
  using wf_TempBins_strict [OF assms] by (simp add: strict_sorted_iff)

lemma length_edges_K: "length (edges_K fl tb) = length (edges tb)"
  by (simp add: edges_K_def)

lemma wf_TempBins_nonempty:
  assumes "wf_TempBins fl tb"
  shows "edges_K fl tb \<noteq> []"
  using assms by (auto simp add: wf_TempBins_def edges_K_def)

lemma wf_ContFuncDiscrete_length:
  assumes "wf_ContFuncDiscrete f"
  shows "length (flat (temps f)) = length (flat (values f))"
  using assms
  by (auto simp add: wf_ContFuncDiscrete_def wf_qarray_def ContFuncDiscrete_init_def size_of_def
      split: if_splits)

lemma binned_discrete_present:
  assumes "wf_ContFuncDiscrete f" and "wf_TempBins fl tb" and "missing_edges fl f tb = []"
  shows "binned_discrete fl f tb =
    Inr (map (\<lambda>k. mean (bin_values (temps_K fl f) (values_cgs fl f) (edges_K fl tb) k)) [0..<nbins tb],
         cm5_per_K)"
proof -
  have len: "length (temps_K fl f) = length (values_cgs fl f)"
    using wf_ContFuncDiscrete_length [OF assms(1)] by (simp add: temps_K_def values_cgs_def)
  have frame: "binned_frame (temps_K fl f) (values_cgs fl f) (edges_K fl tb) =
      Inr (map (\<lambda>k. mean (bin_values (temps_K fl f) (values_cgs fl f) (edges_K fl tb) k)) [0..<nbins tb])"
    using binned_frame_means [OF len wf_TempBins_sorted [OF assms(2)]]
      wf_TempBins_distinct [OF assms(2)] wf_TempBins_nonempty [OF assms(2)]
    by (simp add: nbins_def length_edges_K)
  have "dims (a_unit (temps f)) = dims K" and "dims (a_unit (values f)) = dims cm5_per_K"
    and "dims (edges_unit tb) = dims K"
    using assms(1,2) by (simp_all add: wf_ContFuncDiscrete_def wf_TempBins_def dims_K)
  then show ?thesis
    using frame assms(3) len
    by (simp add: binned_discrete_alt check_bin_edges_present to_value_def
        temps_K_def values_cgs_def edges_K_def)
qed

text \<open>The example inputs in kelvin: no conversion changes a magnitude.\<close>

lemma wf_f_ex: "wf_ContFuncDiscrete f_ex"
  by (simp add: wf_ContFuncDiscrete_def f_ex_def wf_qarray_def ContFuncDiscrete_init_def
      ndim_def size_of_def K_def temperature_def)

lemma edges_K_tb_135: "edges_K fl tb_135 = [1, 3, 5]"
  by (simp add: edges_K_def tb_135_def convert_fl_def)

lemma wf_tb_135: "wf_TempBins fl tb_135"
  by (simp add: wf_TempBins_def edges_K_tb_135) (simp add: tb_135_def K_def)

lemma temps_K_f_ex: "temps_K fl f_ex = [1, 2, 3, 4, 5]"
  by (simp add: temps_K_def f_ex_def convert_fl_def)

lemma values_cgs_f_ex: "values_cgs fl f_ex = [10, 20, 30, 40, 50]"
  by (simp add: values_cgs_def f_ex_def convert_fl_def)

lemma nbins_tb_135: "nbins tb_135 = 2"
  by (simp add: nbins_def tb_135_def)

lemma missing_edges_f_ex_135: "missing_edges fl f_ex tb_135 = []"
  by (simp add: missing_edges_def contains_def f_ex_def tb_135_def convert_fl_def)

lemma missing_edges_f_ex_1_25_5: "missing_edges fl f_ex tb_1_25_5 = [5 / 2]"
  by (simp add: missing_edges_def contains_def f_ex_def tb_1_25_5_def convert_fl_def)

lemma bin_values_f_ex_135:
  "bin_values [1, 2, 3, 4, 5] [10, 20, 30, 40, 50] [1, 3, 5] 0 = [10, 20, 30]"
  "bin_values [1, 2, 3, 4, 5] [10, 20, 30, 40, 50] [1, 3, 5] (Suc 0) = [40, 50]"
  by (simp_all add: bin_values_def in_interval_def)

lemma upt_2: "[0..<2] = [0, 1]"
  by (simp add: upt_rec)

lemma binned_f_ex_135: "binned fl (Discrete f_ex) tb_135 = Inr ([Some 20, Some 45], cm5_per_K)"
  using binned_discrete_present [OF wf_f_ex wf_tb_135 missing_edges_f_ex_135, of fl]
  by (simp add: temps_K_f_ex values_cgs_f_ex edges_K_tb_135 nbins_tb_135 upt_2
      bin_values_f_ex_135 mean_def)

lemma binned_f_ex_1_25_5: "binned fl (Discrete f_ex) tb_1_25_5 = Inl (MissingBinEdges [5 / 2] K)"
  using binned_discrete_missing [of fl f_ex tb_1_25_5]
  by (simp add: missing_edges_f_ex_1_25_5) (simp add: tb_1_25_5_def)

text \<open>The example inputs in megakelvin on the grid in kelvin, with the float product \<open>fl_2007\<close>.\<close>

lemma t_2007_bounds: "2 < t_2007" "t_2007 < 3"
  by (simp_all add: t_2007_def)

lemma t_2007_K_above: "2007000 < t_2007_K"
  by (simp add: t_2007_K_def)

lemma wf_f_MK_12: "wf_ContFuncDiscrete f_MK_12"
  by (simp add: wf_ContFuncDiscrete_def f_MK_12_def wf_qarray_def ContFuncDiscrete_init_def
      ndim_def size_of_def MK_def)

lemma wf_f_MK_2007: "wf_ContFuncDiscrete f_MK_2007"
  by (simp add: wf_ContFuncDiscrete_def f_MK_2007_def wf_qarray_def ContFuncDiscrete_init_def
      ndim_def size_of_def MK_def)

lemma edges_K_tb_K_2007: "edges_K fl tb_K_2007 = [1000000, 2000000, 2007000]"
  by (simp add: edges_K_def tb_K_2007_def convert_fl_def)

lemma wf_tb_K_2007: "wf_TempBins fl tb_K_2007"
  by (simp add: wf_TempBins_def edges_K_tb_K_2007) (simp add: tb_K_2007_def K_def)

lemma nbins_tb_K_2007: "nbins tb_K_2007 = 2"
  by (simp add: nbins_def tb_K_2007_def)

lemma temps_K_f_MK_2007:
  "temps_K fl_2007 f_MK_2007 = [1000000, 2000000, t_2007_K]"
  using t_2007_bounds
  by (simp add: temps_K_def f_MK_2007_def convert_fl_def MK_def K_def fl_2007_def)

lemma values_cgs_f_MK_2007: "values_cgs fl f_MK_2007 = [10, 20, 30]"
  by (simp add: values_cgs_def f_MK_2007_def convert_fl_def)

lemma missing_edges_f_MK_2007: "missing_edges fl_2007 f_MK_2007 tb_K_2007 = []"
  by (simp add: missing_edges_def contains_def f_MK_2007_def tb_K_2007_def convert_fl_def
      MK_def K_def fl_2007_def)

lemma missing_edges_f_MK_12: "missing_edges fl_2007 f_MK_12 tb_K_2007 = [2007000]"
  using t_2007_bounds
  by (simp add: missing_edges_def contains_def f_MK_12_def tb_K_2007_def convert_fl_def
      MK_def K_def fl_2007_def)

lemma bin_values_f_MK_2007:
  "bin_values [1000000, 2000000, t_2007_K] [10, 20, 30]
     [1000000, 2000000, 2007000] 0 = [10, 20]"
  "bin_values [1000000, 2000000, t_2007_K] [10, 20, 30]
     [1000000, 2000000, 2007000] (Suc 0) = []"
  using t_2007_K_above by (simp_all add: bin_values_def in_interval_def)


lemma binned_f_MK_12:
  "binned fl_2007 (Discrete f_MK_12) tb_K_2007 = Inl (MissingBinEdges [2007000] K)"
  using binned_discrete_missing [of fl_2007 f_MK_12 tb_K_2007]
  by (simp add: missing_edges_f_MK_12) (simp add: tb_K_2007_def)


text \<open>
  When the samples and the grid are in the same unit, the edge check compares the edges with
  the samples as they are and both go to kelvin by the same conversion: every bin then holds
  its upper edge.
\<close>

lemma convert_fl_same: "convert_fl fl u u x = x"
  by (simp add: convert_fl_def)

lemma edge_in_temps_K:
  assumes "edges_unit tb = a_unit (temps f)" and "missing_edges fl f tb = []"
    and "e \<in> set (edges_K fl tb)"
  shows "e \<in> set (temps_K fl f)"
proof -
  from assms(3) obtain x where x: "x \<in> set (edges tb)"
    and e: "e = convert_fl fl (edges_unit tb) K x"
    by (auto simp add: edges_K_def)
  have "contains fl (temps f) (edges_unit tb) x"
    using assms(2) x by (auto simp add: missing_edges_def filter_empty_conv)
  then have "x \<in> set (flat (temps f))"
    using assms(1) by (simp add: contains_def convert_fl_same)
  then show ?thesis
    using assms(1) e by (simp add: temps_K_def)
qed

lemma bin_values_nonempty:
  assumes "length ts = length vs" and "t \<in> set ts" and "in_interval es k t"
  shows "bin_values ts vs es k \<noteq> []"
proof -
  from assms(2) obtain i where i: "i < length ts" and t: "ts ! i = t"
    by (auto simp add: in_set_conv_nth)
  have "(t, vs ! i) \<in> set (zip ts vs)"
    using i t assms(1) by (auto simp add: in_set_zip)
  then have "\<exists>tv\<in>set (zip ts vs). in_interval es k (fst tv)"
    using assms(3) by force
  then show ?thesis
    by (simp add: bin_values_def filter_empty_conv)
qed

lemma upper_edge_in_interval:
  assumes "sorted_wrt (<) es" and "Suc k < length es"
  shows "in_interval es k (es ! Suc k)"
proof -
  have "es ! k < es ! Suc k"
    using assms by (simp add: sorted_wrt_nth_less)
  then show ?thesis
    by (simp add: in_interval_def)
qed

lemma binned_discrete_bins_nonempty:
  assumes "wf_ContFuncDiscrete f" and "wf_TempBins fl tb" and "missing_edges fl f tb = []"
    and "edges_unit tb = a_unit (temps f)" and "k < nbins tb"
  shows "bin_values (temps_K fl f) (values_cgs fl f) (edges_K fl tb) k \<noteq> []"
proof -
  have k: "Suc k < length (edges_K fl tb)"
    using assms(5) by (simp add: nbins_def length_edges_K)
  have "edges_K fl tb ! Suc k \<in> set (temps_K fl f)"
    using k by (intro edge_in_temps_K [OF assms(4,3)] nth_mem)
  moreover have "in_interval (edges_K fl tb) k (edges_K fl tb ! Suc k)"
    using wf_TempBins_strict [OF assms(2)] k by (rule upper_edge_in_interval)
  moreover have "length (temps_K fl f) = length (values_cgs fl f)"
    using wf_ContFuncDiscrete_length [OF assms(1)] by (simp add: temps_K_def values_cgs_def)
  ultimately show ?thesis
    by (intro bin_values_nonempty)
qed

text \<open>
  Claim C2. For a discrete contribution function whose samples contain every edge of the
  grid (the edge check passes), \<open>binned\<close> returns one value per bin, in cm^5/K: the value of
  bin \<open>k\<close> is the arithmetic mean of the values whose sample point, in kelvin, lies between
  edge \<open>k\<close> (excluded) and edge \<open>k + 1\<close> (included), the lowest bin also taking the samples
  equal to the first edge; it is the missing value when there is no such sample. When the
  samples and the grid are in the same unit there is at least one such sample in every bin.
  With samples 1, 2, 3, 4, 5 K, values 10, 20, 30, 40, 50 cm^5/K and edges 1, 3, 5 K the
  result is 20, 45.
\<close>

theorem binned_discrete_bin_means:
  "(wf_ContFuncDiscrete f \<and> wf_TempBins fl tb \<and> missing_edges fl f tb = [] \<longrightarrow>
      (\<exists>out. binned fl (Discrete f) tb = Inr (out, cm5_per_K)
         \<and> length out = nbins tb
         \<and> (\<forall>k<nbins tb.
              out ! k =
                (if bin_values (temps_K fl f) (values_cgs fl f) (edges_K fl tb) k = [] then None
                 else Some (sum_list (bin_values (temps_K fl f) (values_cgs fl f) (edges_K fl tb) k)
                   / real (length (bin_values (temps_K fl f) (values_cgs fl f) (edges_K fl tb) k)))))
         \<and> (edges_unit tb = a_unit (temps f) \<longrightarrow>
              (\<forall>k<nbins tb.
                 bin_values (temps_K fl f) (values_cgs fl f) (edges_K fl tb) k \<noteq> []))))
   \<and> binned fl (Discrete f_ex) tb_135 = Inr ([Some 20, Some 45], cm5_per_K)"
proof (intro conjI impI)
  assume a: "wf_ContFuncDiscrete f \<and> wf_TempBins fl tb \<and> missing_edges fl f tb = []"
  let ?bv = "bin_values (temps_K fl f) (values_cgs fl f) (edges_K fl tb)"
  let ?out = "map (\<lambda>k. mean (?bv k)) [0..<nbins tb]"
  have "binned fl (Discrete f) tb = Inr (?out, cm5_per_K)"
    using a binned_discrete_present [of f fl tb] by simp
  moreover have "length ?out = nbins tb"
    by simp
  moreover have "\<forall>k<nbins tb. ?out ! k =
      (if ?bv k = [] then None else Some (sum_list (?bv k) / real (length (?bv k))))"
    by (simp add: mean_def)
  moreover have "edges_unit tb = a_unit (temps f) \<longrightarrow> (\<forall>k<nbins tb. ?bv k \<noteq> [])"
    using a binned_discrete_bins_nonempty [of f fl tb] by blast
  ultimately show "\<exists>out. binned fl (Discrete f) tb = Inr (out, cm5_per_K)
         \<and> length out = nbins tb
         \<and> (\<forall>k<nbins tb. out ! k =
               (if ?bv k = [] then None else Some (sum_list (?bv k) / real (length (?bv k)))))
         \<and> (edges_unit tb = a_unit (temps f) \<longrightarrow> (\<forall>k<nbins tb. ?bv k \<noteq> []))"
    by blast
next
  show "binned fl (Discrete f_ex) tb_135 = Inr ([Some 20, Some 45], cm5_per_K)"
    by (rule binned_f_ex_135)
qed

theorem binned_discrete_bin_means_witness:
  "\<forall>fl. \<exists>out. binned fl (Discrete f_ex) tb_135 = Inr (out, cm5_per_K)
      \<and> length out = 2 \<and> out ! 0 = Some ((10 + 20 + 30) / 3) \<and> out ! 1 = Some ((40 + 50) / 2)"
proof
  fix fl
  have "wf_ContFuncDiscrete f_ex \<and> wf_TempBins fl tb_135 \<and> missing_edges fl f_ex tb_135 = []"
    by (simp add: wf_f_ex wf_tb_135 missing_edges_f_ex_135)
  with binned_discrete_bin_means [of f_ex fl tb_135] obtain out where
    run: "binned fl (Discrete f_ex) tb_135 = Inr (out, cm5_per_K)"
    and len: "length out = 2"
    and each: "\<forall>k<2. out ! k =
        (if bin_values [1, 2, 3, 4, 5] [10, 20, 30, 40, 50] [1, 3, 5] k = [] then None
         else Some (sum_list (bin_values [1, 2, 3, 4, 5] [10, 20, 30, 40, 50] [1, 3, 5] k)
           / real (length (bin_values [1, 2, 3, 4, 5] [10, 20, 30, 40, 50] [1, 3, 5] k))))"
    unfolding nbins_tb_135 temps_K_f_ex values_cgs_f_ex edges_K_tb_135 by blast
  have "out ! 0 = Some ((10 + 20 + 30) / 3)"
    using each [rule_format, of 0] by (simp add: bin_values_f_ex_135)
  moreover have "out ! 1 = Some ((40 + 50) / 2)"
    using each [rule_format, of 1] by (simp add: bin_values_f_ex_135)
  ultimately show "\<exists>out. binned fl (Discrete f_ex) tb_135 = Inr (out, cm5_per_K)
      \<and> length out = 2 \<and> out ! 0 = Some ((10 + 20 + 30) / 3) \<and> out ! 1 = Some ((40 + 50) / 2)"
    using run len by blast
qed

text \<open>
  Claim C3. \<open>binned\<close> raises the missing-edge error exactly when some edge of the grid is
  absent from the samples: the edge, converted to the unit of the samples, equals no sample
  (when the units are the same, the edge itself is no sample). The error then lists every
  absent edge, in the order of the grid, and nothing else. For well-formed inputs this is
  the only error of \<open>binned\<close>: it fails exactly when an edge is absent.
\<close>

theorem binned_discrete_missing_edge_error:
  "((\<exists>ms u. binned fl (Discrete f) tb = Inl (MissingBinEdges ms u))
       \<longleftrightarrow> (\<exists>t\<in>set (edges tb).
              \<not> (dims (edges_unit tb) = dims (a_unit (temps f))
                 \<and> convert_fl fl (edges_unit tb) (a_unit (temps f)) t \<in> set (flat (temps f)))))
   \<and> (\<forall>ms u. binned fl (Discrete f) tb = Inl (MissingBinEdges ms u) \<longrightarrow>
         ms = filter (\<lambda>t. \<not> (dims (edges_unit tb) = dims (a_unit (temps f))
                 \<and> convert_fl fl (edges_unit tb) (a_unit (temps f)) t \<in> set (flat (temps f))))
                (edges tb)
         \<and> u = edges_unit tb)
   \<and> (edges_unit tb = a_unit (temps f) \<longrightarrow>
         ((\<exists>ms u. binned fl (Discrete f) tb = Inl (MissingBinEdges ms u))
            \<longleftrightarrow> (\<exists>t\<in>set (edges tb). t \<notin> set (flat (temps f)))))
   \<and> (wf_ContFuncDiscrete f \<and> wf_TempBins fl tb \<longrightarrow>
         ((\<exists>e. binned fl (Discrete f) tb = Inl e)
            \<longleftrightarrow> (\<exists>t\<in>set (edges tb).
              \<not> (dims (edges_unit tb) = dims (a_unit (temps f))
                 \<and> convert_fl fl (edges_unit tb) (a_unit (temps f)) t \<in> set (flat (temps f))))))"
proof -
  let ?absent = "\<lambda>t. \<not> (dims (edges_unit tb) = dims (a_unit (temps f))
      \<and> convert_fl fl (edges_unit tb) (a_unit (temps f)) t \<in> set (flat (temps f)))"
  have missing: "missing_edges fl f tb = filter ?absent (edges tb)"
    by (simp add: missing_edges_def contains_def)
  have same: "edges_unit tb = a_unit (temps f) \<Longrightarrow> ?absent t \<longleftrightarrow> t \<notin> set (flat (temps f))" for t
    by (simp add: convert_fl_same)
  show ?thesis
  proof (cases "missing_edges fl f tb = []")
    case True
    then have none: "\<not> (\<exists>t\<in>set (edges tb). ?absent t)"
      unfolding missing by (simp add: filter_empty_conv)
    have "\<And>ms u. binned fl (Discrete f) tb \<noteq> Inl (MissingBinEdges ms u)"
      using binned_discrete_present_not_missing [OF True] by simp
    moreover have "wf_ContFuncDiscrete f \<and> wf_TempBins fl tb
        \<longrightarrow> \<not> (\<exists>e. binned fl (Discrete f) tb = Inl e)"
      using binned_discrete_present [of f fl tb] True by auto
    ultimately show ?thesis
      using none same by blast
  next
    case False
    then have some: "\<exists>t\<in>set (edges tb). ?absent t"
      unfolding missing by (simp add: filter_empty_conv)
    have "binned fl (Discrete f) tb = Inl (MissingBinEdges (filter ?absent (edges tb)) (edges_unit tb))"
      using binned_discrete_missing [OF False] by (simp add: missing)
    then show ?thesis
      using some same by auto
  qed
qed

theorem binned_discrete_missing_edge_error_witness:
  "(\<forall>fl. binned fl (Discrete f_ex) tb_1_25_5 = Inl (MissingBinEdges [5 / 2] K)
      \<and> (\<exists>t\<in>set (edges tb_1_25_5). t \<notin> set (flat (temps f_ex)))
      \<and> \<not> (\<exists>e. binned fl (Discrete f_ex) tb_135 = Inl e)
      \<and> \<not> (\<exists>t\<in>set (edges tb_135). t \<notin> set (flat (temps f_ex))))
   \<and> binned fl_2007 (Discrete f_MK_12) tb_K_2007 = Inl (MissingBinEdges [2007000] K)
   \<and> filter (\<lambda>t. \<not> (dims (edges_unit tb_K_2007) = dims (a_unit (temps f_MK_12))
         \<and> convert_fl fl_2007 (edges_unit tb_K_2007) (a_unit (temps f_MK_12)) t
             \<in> set (flat (temps f_MK_12)))) (edges tb_K_2007) = [2007000]"
proof -
  have first: "binned fl (Discrete f_ex) tb_1_25_5 = Inl (MissingBinEdges [5 / 2] K)
      \<and> (\<exists>t\<in>set (edges tb_1_25_5). t \<notin> set (flat (temps f_ex)))
      \<and> \<not> (\<exists>e. binned fl (Discrete f_ex) tb_135 = Inl e)
      \<and> \<not> (\<exists>t\<in>set (edges tb_135). t \<notin> set (flat (temps f_ex)))" for fl
  proof -
    have run: "binned fl (Discrete f_ex) tb_1_25_5 = Inl (MissingBinEdges [5 / 2] K)"
      by (rule binned_f_ex_1_25_5)
    have u1: "edges_unit tb_1_25_5 = a_unit (temps f_ex)"
      by (simp add: tb_1_25_5_def f_ex_def)
    have u2: "edges_unit tb_135 = a_unit (temps f_ex)"
      by (simp add: tb_135_def f_ex_def)
    have "\<exists>t\<in>set (edges tb_1_25_5). t \<notin> set (flat (temps f_ex))"
      using binned_discrete_missing_edge_error [of fl f_ex tb_1_25_5] run u1 by blast
    moreover have ok: "\<not> (\<exists>e. binned fl (Discrete f_ex) tb_135 = Inl e)"
      using binned_f_ex_135 [of fl] by simp
    moreover have "\<not> (\<exists>t\<in>set (edges tb_135). t \<notin> set (flat (temps f_ex)))"
      using binned_discrete_missing_edge_error [of fl f_ex tb_135] ok u2 by blast
    ultimately show ?thesis
      using run by blast
  qed
  have run: "binned fl_2007 (Discrete f_MK_12) tb_K_2007 = Inl (MissingBinEdges [2007000] K)"
    by (rule binned_f_MK_12)
  have "filter (\<lambda>t. \<not> (dims (edges_unit tb_K_2007) = dims (a_unit (temps f_MK_12))
         \<and> convert_fl fl_2007 (edges_unit tb_K_2007) (a_unit (temps f_MK_12)) t
             \<in> set (flat (temps f_MK_12)))) (edges tb_K_2007) = [2007000]"
    using binned_discrete_missing_edge_error [of fl_2007 f_MK_12 tb_K_2007] run by simp
  with first run show ?thesis
    by blast
qed

text \<open>
  Claim C7. When the samples contain every edge of the grid (the edge check passes),
  \<open>binned\<close> returns one entry per bin of the grid, in the order of the grid, and the entry
  of a bin is the missing value exactly when no sample point, in kelvin, lies in that bin:
  neither zero nor an error; otherwise it is the mean of the bin. A bin without sample
  occurs when the samples and the grid are in different units and a sample found by the edge
  check is converted to kelvin beside its edge.
\<close>

theorem binned_discrete_empty_bin:
  assumes "wf_ContFuncDiscrete f" and "wf_TempBins fl tb" and "missing_edges fl f tb = []"
  shows "\<exists>out. binned fl (Discrete f) tb = Inr (out, cm5_per_K)
           \<and> length out = nbins tb
           \<and> (\<forall>k<nbins tb.
                 (out ! k = None
                    \<longleftrightarrow> bin_values (temps_K fl f) (values_cgs fl f) (edges_K fl tb) k = [])
                 \<and> (bin_values (temps_K fl f) (values_cgs fl f) (edges_K fl tb) k \<noteq> [] \<longrightarrow>
                      out ! k = Some
                        (sum_list (bin_values (temps_K fl f) (values_cgs fl f) (edges_K fl tb) k)
                         / real (length
                             (bin_values (temps_K fl f) (values_cgs fl f) (edges_K fl tb) k)))))"
proof -
  let ?bv = "bin_values (temps_K fl f) (values_cgs fl f) (edges_K fl tb)"
  let ?out = "map (\<lambda>k. mean (?bv k)) [0..<nbins tb]"
  have "binned fl (Discrete f) tb = Inr (?out, cm5_per_K)"
    using binned_discrete_present [OF assms] by simp
  moreover have "length ?out = nbins tb"
    by simp
  moreover have "\<forall>k<nbins tb. (?out ! k = None \<longleftrightarrow> ?bv k = [])
      \<and> (?bv k \<noteq> [] \<longrightarrow> ?out ! k = Some (sum_list (?bv k) / real (length (?bv k))))"
    by (simp add: mean_def)
  ultimately show ?thesis
    by blast
qed

theorem binned_discrete_empty_bin_witness:
  "\<exists>out. binned fl_2007 (Discrete f_MK_2007) tb_K_2007 = Inr (out, cm5_per_K)
      \<and> length out = 2 \<and> out ! 0 = Some 15 \<and> out ! 1 = None
      \<and> bin_values (temps_K fl_2007 f_MK_2007) (values_cgs fl_2007 f_MK_2007)
           (edges_K fl_2007 tb_K_2007) 1 = []"
proof -
  from binned_discrete_empty_bin [OF wf_f_MK_2007 wf_tb_K_2007 missing_edges_f_MK_2007]
  obtain out where
    run: "binned fl_2007 (Discrete f_MK_2007) tb_K_2007 = Inr (out, cm5_per_K)"
    and len: "length out = 2"
    and each: "\<forall>k<2.
        (out ! k = None \<longleftrightarrow>
           bin_values [1000000, 2000000, t_2007_K] [10, 20, 30] [1000000, 2000000, 2007000] k = [])
        \<and> (bin_values [1000000, 2000000, t_2007_K] [10, 20, 30] [1000000, 2000000, 2007000] k \<noteq> []
           \<longrightarrow> out ! k = Some
             (sum_list (bin_values [1000000, 2000000, t_2007_K] [10, 20, 30]
                [1000000, 2000000, 2007000] k)
              / real (length (bin_values [1000000, 2000000, t_2007_K] [10, 20, 30]
                [1000000, 2000000, 2007000] k))))"
    unfolding nbins_tb_K_2007 temps_K_f_MK_2007 values_cgs_f_MK_2007 edges_K_tb_K_2007 by blast
  have "out ! 0 = Some 15"
    using each [rule_format, of 0] by (simp add: bin_values_f_MK_2007)
  moreover have "out ! 1 = None"
    using each [rule_format, of 1] by (simp add: bin_values_f_MK_2007)
  moreover have "bin_values (temps_K fl_2007 f_MK_2007) (values_cgs fl_2007 f_MK_2007)
      (edges_K fl_2007 tb_K_2007) 1 = []"
    by (simp add: temps_K_f_MK_2007 values_cgs_f_MK_2007 edges_K_tb_K_2007 bin_values_f_MK_2007)
  ultimately show ?thesis
    using run len by blast
qed










section \<open>Predicted intensity\<close>

lemma np_mul_same_length:
  assumes "length xs = length ys"
  shows "np_mul (map Some xs) (map Some ys) = Inr (map Some (map2 (*) xs ys))"
proof -
  have "map2 fmul (map Some xs) (map Some ys) = map Some (map2 (*) xs ys)"
    by (simp add: zip_map_map fmul_def case_prod_beta)
  then show ?thesis
    using assms by (simp add: np_mul_def)
qed

lemma np_sum_Some: "np_sum (map Some xs) = Some (sum_list xs)"
  by (simp add: np_sum_def list_all_iff comp_def)

lemma binned_length:
  assumes "binned fl cf tb = Inr (g, ug)"
  shows "length g = nbins tb"
proof (cases cf)
  case (Gaussian c)
  then show ?thesis
    using assms
    by (auto simp add: binned_gaussian_def length_bin_centers_MK split: sum.splits)
next
  case (Discrete f)
  then show ?thesis
    using assms
    by (auto simp add: binned_discrete_alt binned_frame_alt groupby_mean_def nbins_def
        to_value_def split: sum.splits if_splits)
qed

lemma sum_list_products:
  assumes "length gs = n" and "length ds = n" and "length ws = n"
  shows "sum_list (map2 (*) (map2 (*) gs ds) ws) = (\<Sum>i<n. gs ! i * ds ! i * ws ! i)"
proof -
  have "sum_list (map2 (*) (map2 (*) gs ds) ws) =
      (\<Sum>i = 0..<n. map2 (*) (map2 (*) gs ds) ws ! i)"
    using assms by (simp add: sum_list_sum_nth)
  also have "\<dots> = (\<Sum>i = 0..<n. gs ! i * ds ! i * ws ! i)"
    using assms by (intro sum.cong refl) simp
  finally show ?thesis
    by (simp add: atLeast0LessThan)
qed

lemma I_pred_sum:
  assumes "binned fl (cont_func line) (temp_bins dem) = Inr (map Some gs, ug)"
    and "length (dem_values dem) = nbins (temp_bins dem)"
    and "dims (product_unit ug dem) = dimensionless"
  shows "I_pred fl line dem =
    Inr (Some ((\<Sum>i<nbins (temp_bins dem).
                  gs ! i * dem_values dem ! i * bin_widths (temp_bins dem) ! i)
               * scale (product_unit ug dem)))"
proof -
  let ?tb = "temp_bins dem"
  have lg: "length gs = nbins ?tb"
    using binned_length [OF assms(1)] by simp
  have p: "np_mul (map Some gs) (map Some (dem_values dem)) =
      Inr (map Some (map2 (*) gs (dem_values dem)))"
    using lg assms(2) by (intro np_mul_same_length) simp
  have q: "np_mul (map Some (map2 (*) gs (dem_values dem))) (map Some (bin_widths ?tb)) =
      Inr (map Some (map2 (*) (map2 (*) gs (dem_values dem)) (bin_widths ?tb)))"
    using lg assms(2) by (intro np_mul_same_length) (simp add: length_bin_widths)
  have "I_pred fl line dem = to_dimensionless (product_unit ug dem)
      (Some (sum_list (map2 (*) (map2 (*) gs (dem_values dem)) (bin_widths ?tb))))"
    by (simp only: I_pred_def assms(1) p q np_sum_Some sum.case prod.case)
  also have "\<dots> = Inr (Some (sum_list (map2 (*) (map2 (*) gs (dem_values dem)) (bin_widths ?tb))
      * scale (product_unit ug dem)))"
    using assms(3)
    by (simp add: to_dimensionless_def dimensionless_unscaled_def convert_def)
  finally show ?thesis
    using sum_list_products [OF lg assms(2) length_bin_widths [of ?tb]] by simp
qed

text \<open>
  Claim C1. When the contribution function bins to the numbers \<open>gs\<close> on the grid of the DEM,
  the DEM has one value per bin and the unit of the product is dimensionless, \<open>I_pred\<close>
  returns the sum over the bins of value times DEM value times bin width, multiplied by the
  scale of the unit of the product (1 for cm^5/K, cm^-5 and K). When every bin has the value
  \<open>g\<close>, the DEM value \<open>d\<close> and the width \<open>w\<close>, that is N times \<open>g\<close> times \<open>d\<close> times \<open>w\<close>.
\<close>

theorem I_pred_sum_of_products:
  assumes "binned fl (cont_func line) (temp_bins dem) = Inr (map Some gs, ug)"
    and "length (dem_values dem) = nbins (temp_bins dem)"
    and "dims (product_unit ug dem) = dimensionless"
  shows "I_pred fl line dem =
      Inr (Some ((\<Sum>i<nbins (temp_bins dem).
                    gs ! i * dem_values dem ! i * bin_widths (temp_bins dem) ! i)
                 * scale (product_unit ug dem)))
    \<and> ((\<forall>i<nbins (temp_bins dem).
           gs ! i = g \<and> dem_values dem ! i = d \<and> bin_widths (temp_bins dem) ! i = w)
        \<longrightarrow> I_pred fl line dem =
            Inr (Some (real (nbins (temp_bins dem)) * g * d * w * scale (product_unit ug dem))))"
proof (intro conjI impI)
  show general: "I_pred fl line dem =
      Inr (Some ((\<Sum>i<nbins (temp_bins dem).
                    gs ! i * dem_values dem ! i * bin_widths (temp_bins dem) ! i)
                 * scale (product_unit ug dem)))"
    by (rule I_pred_sum [OF assms])
  assume "\<forall>i<nbins (temp_bins dem).
      gs ! i = g \<and> dem_values dem ! i = d \<and> bin_widths (temp_bins dem) ! i = w"
  then have "(\<Sum>i<nbins (temp_bins dem).
      gs ! i * dem_values dem ! i * bin_widths (temp_bins dem) ! i) =
      (\<Sum>i<nbins (temp_bins dem). g * d * w)"
    by (intro sum.cong refl) simp
  also have "\<dots> = real (nbins (temp_bins dem)) * g * d * w"
    by simp
  finally show "I_pred fl line dem =
      Inr (Some (real (nbins (temp_bins dem)) * g * d * w * scale (product_unit ug dem)))"
    using general by simp
qed


lemma wf_f_const: "wf_ContFuncDiscrete f_const"
  by (simp add: wf_ContFuncDiscrete_def f_const_def wf_qarray_def ContFuncDiscrete_init_def
      ndim_def size_of_def K_def temperature_def)

lemma wf_tb_123: "wf_TempBins fl tb_123"
  by (simp add: wf_TempBins_def edges_K_def tb_123_def convert_fl_def K_def)

lemma missing_edges_f_const_123: "missing_edges fl f_const tb_123 = []"
  by (simp add: missing_edges_def contains_def f_const_def tb_123_def convert_fl_def)

lemma nbins_tb_123: "nbins tb_123 = 2"
  by (simp add: nbins_def tb_123_def)

lemma bin_widths_tb_123: "bin_widths tb_123 = [1, 1]"
  by (simp add: bin_widths_def tb_123_def)

lemma bin_values_f_const_123:
  "bin_values (temps_K fl f_const) (values_cgs fl f_const) (edges_K fl tb_123) 0 = [10, 10]"
  "bin_values (temps_K fl f_const) (values_cgs fl f_const) (edges_K fl tb_123) (Suc 0) = [10]"
  by (simp_all add: bin_values_def in_interval_def temps_K_def values_cgs_def edges_K_def
      f_const_def tb_123_def convert_fl_def)

lemma binned_f_const_123: "binned fl (Discrete f_const) tb_123 = Inr (map Some [10, 10], cm5_per_K)"
  using binned_discrete_present [OF wf_f_const wf_tb_123 missing_edges_f_const_123]
  by (simp add: nbins_tb_123 upt_2 bin_values_f_const_123 mean_def)

lemma product_unit_dem_ex: "product_unit cm5_per_K dem_ex = dimensionless_unscaled"
  by (simp add: product_unit_def unit_mul_def dem_ex_def tb_123_def per_cm5_def cm5_per_K_def
      K_def temperature_def dimensionless_unscaled_def dimensionless_def power_divide)

lemma dims_product_unit_dem_K: "dims (product_unit cm5_per_K dem_K) \<noteq> dimensionless"
  by (simp add: product_unit_def unit_mul_def dem_K_def tb_123_def cm5_per_K_def
      K_def temperature_def dimensionless_def)

theorem I_pred_sum_of_products_witness:
  "\<forall>fl. I_pred fl line_const dem_ex = Inr (Some (2 * 10 * 4 * 1)) \<and> nbins (temp_bins dem_ex) = 2"
proof
  fix fl
  have run: "binned fl (cont_func line_const) (temp_bins dem_ex) = Inr (map Some [10, 10], cm5_per_K)"
    using binned_f_const_123 by (simp add: line_const_def dem_ex_def)
  have len: "length (dem_values dem_ex) = nbins (temp_bins dem_ex)"
    by (simp add: dem_ex_def nbins_tb_123)
  have dl: "dims (product_unit cm5_per_K dem_ex) = dimensionless"
    by (simp add: product_unit_dem_ex dimensionless_unscaled_def)
  have n: "nbins (temp_bins dem_ex) = 2"
    by (simp add: dem_ex_def nbins_tb_123)
  have "\<forall>i<nbins (temp_bins dem_ex).
      [10, 10] ! i = (10::real) \<and> dem_values dem_ex ! i = 4 \<and> bin_widths (temp_bins dem_ex) ! i = 1"
    by (auto simp add: dem_ex_def nbins_tb_123 bin_widths_tb_123 less_Suc_eq numeral_2_eq_2)
  with I_pred_sum_of_products [OF run len dl, of 10 4 1]
  have "I_pred fl line_const dem_ex =
      Inr (Some (real (nbins (temp_bins dem_ex)) * 10 * 4 * 1 * scale (product_unit cm5_per_K dem_ex)))"
    by blast
  then show "I_pred fl line_const dem_ex = Inr (Some (2 * 10 * 4 * 1))
      \<and> nbins (temp_bins dem_ex) = 2"
    by (simp add: n product_unit_dem_ex dimensionless_unscaled_def)
qed

lemma np_mul_equal_length:
  assumes "length xs = length ys"
  shows "np_mul xs ys = Inr (map2 fmul xs ys)"
  using assms by (simp add: np_mul_def)

lemma I_pred_error: "binned fl (cont_func line) (temp_bins dem) = Inl e \<Longrightarrow> I_pred fl line dem = Inl e"
  by (simp add: I_pred_def)

lemma I_pred_products:
  assumes "binned fl (cont_func line) (temp_bins dem) = Inr (g, ug)"
    and "length (dem_values dem) = nbins (temp_bins dem)"
  shows "I_pred fl line dem = to_dimensionless (product_unit ug dem)
    (np_sum (map2 fmul (map2 fmul g (map Some (dem_values dem)))
       (map Some (bin_widths (temp_bins dem)))))"
proof -
  have lg: "length g = nbins (temp_bins dem)"
    by (rule binned_length [OF assms(1)])
  have p: "np_mul g (map Some (dem_values dem)) = Inr (map2 fmul g (map Some (dem_values dem)))"
    using lg assms(2) by (intro np_mul_equal_length) simp
  have q: "np_mul (map2 fmul g (map Some (dem_values dem))) (map Some (bin_widths (temp_bins dem))) =
      Inr (map2 fmul (map2 fmul g (map Some (dem_values dem)))
        (map Some (bin_widths (temp_bins dem))))"
    using lg assms(2) by (intro np_mul_equal_length) (simp add: length_bin_widths)
  show ?thesis
    by (simp only: I_pred_def assms(1) p q sum.case prod.case)
qed

lemma I_pred_not_dimensionless:
  assumes "binned fl (cont_func line) (temp_bins dem) = Inr (g, ug)"
    and "dims (product_unit ug dem) \<noteq> dimensionless"
  shows "\<exists>e. I_pred fl line dem = Inl e"
  using assms
  by (auto simp add: I_pred_def to_dimensionless_def dimensionless_unscaled_def split: sum.splits)

text \<open>
  Claim C8. \<open>I_pred\<close> passes on the error of the contribution function's \<open>binned\<close>; it fails
  when the unit of the product of contribution function, DEM values and bin widths is not
  dimensionless (with a unit conversion error when the DEM has one value per bin); and when
  that unit is dimensionless and the DEM has one value per bin it returns a number.
\<close>

theorem I_pred_failures:
  "(binned fl (cont_func line) (temp_bins dem) = Inl e \<longrightarrow> I_pred fl line dem = Inl e)
   \<and> (binned fl (cont_func line) (temp_bins dem) = Inr (g, ug)
        \<and> dims (product_unit ug dem) \<noteq> dimensionless
      \<longrightarrow> (\<exists>e'. I_pred fl line dem = Inl e'))
   \<and> (binned fl (cont_func line) (temp_bins dem) = Inr (g, ug)
        \<and> length (dem_values dem) = nbins (temp_bins dem)
        \<and> dims (product_unit ug dem) \<noteq> dimensionless
      \<longrightarrow> I_pred fl line dem = Inl UnitConversionError)
   \<and> (binned fl (cont_func line) (temp_bins dem) = Inr (g, ug)
        \<and> length (dem_values dem) = nbins (temp_bins dem)
        \<and> dims (product_unit ug dem) = dimensionless
      \<longrightarrow> (\<exists>r. I_pred fl line dem = Inr r))"
proof (intro conjI impI)
  assume "binned fl (cont_func line) (temp_bins dem) = Inl e"
  then show "I_pred fl line dem = Inl e"
    by (rule I_pred_error)
next
  assume "binned fl (cont_func line) (temp_bins dem) = Inr (g, ug)
      \<and> dims (product_unit ug dem) \<noteq> dimensionless"
  then show "\<exists>e'. I_pred fl line dem = Inl e'"
    using I_pred_not_dimensionless by blast
next
  assume "binned fl (cont_func line) (temp_bins dem) = Inr (g, ug)
      \<and> length (dem_values dem) = nbins (temp_bins dem)
      \<and> dims (product_unit ug dem) \<noteq> dimensionless"
  then show "I_pred fl line dem = Inl UnitConversionError"
    using I_pred_products [of fl line dem g ug]
    by (simp add: to_dimensionless_def dimensionless_unscaled_def)
next
  assume "binned fl (cont_func line) (temp_bins dem) = Inr (g, ug)
      \<and> length (dem_values dem) = nbins (temp_bins dem)
      \<and> dims (product_unit ug dem) = dimensionless"
  then show "\<exists>r. I_pred fl line dem = Inr r"
    using I_pred_products [of fl line dem g ug]
    by (simp add: to_dimensionless_def dimensionless_unscaled_def)
qed

theorem I_pred_failures_witness:
  "\<forall>fl. I_pred fl line_ex dem_missing = Inl (MissingBinEdges [5 / 2] K)
   \<and> I_pred fl line_const dem_K = Inl UnitConversionError
   \<and> (\<exists>r. I_pred fl line_const dem_ex = Inr r)"
proof
  fix fl
  have "binned fl (cont_func line_ex) (temp_bins dem_missing) = Inl (MissingBinEdges [5 / 2] K)"
    using binned_f_ex_1_25_5 by (simp add: line_ex_def dem_missing_def)
  with I_pred_failures [of fl line_ex dem_missing "MissingBinEdges [5 / 2] K"]
  have a: "I_pred fl line_ex dem_missing = Inl (MissingBinEdges [5 / 2] K)"
    by blast
  have "binned fl (cont_func line_const) (temp_bins dem_K) = Inr (map Some [10, 10], cm5_per_K)"
    using binned_f_const_123 by (simp add: line_const_def dem_K_def)
  moreover have "length (dem_values dem_K) = nbins (temp_bins dem_K)"
    by (simp add: dem_K_def nbins_tb_123)
  ultimately have b: "I_pred fl line_const dem_K = Inl UnitConversionError"
    using I_pred_failures [of fl line_const dem_K _ "map Some [10, 10]" cm5_per_K]
      dims_product_unit_dem_K by blast
  have "binned fl (cont_func line_const) (temp_bins dem_ex) = Inr (map Some [10, 10], cm5_per_K)"
    using binned_f_const_123 by (simp add: line_const_def dem_ex_def)
  moreover have "length (dem_values dem_ex) = nbins (temp_bins dem_ex)"
    by (simp add: dem_ex_def nbins_tb_123)
  moreover have "dims (product_unit cm5_per_K dem_ex) = dimensionless"
    by (simp add: product_unit_dem_ex dimensionless_unscaled_def)
  ultimately have c: "\<exists>r. I_pred fl line_const dem_ex = Inr r"
    using I_pred_failures [of fl line_const dem_ex _ "map Some [10, 10]" cm5_per_K] by blast
  from a b c show "I_pred fl line_ex dem_missing = Inl (MissingBinEdges [5 / 2] K)
      \<and> I_pred fl line_const dem_K = Inl UnitConversionError
      \<and> (\<exists>r. I_pred fl line_const dem_ex = Inr r)"
    by blast
qed

end
